theory Spec2Isabelle
  imports Main "HOL-Library.Word"
begin

section \<open>The simulator facade of \<^verbatim>\<open>src/core/model/simulator.cc\<close>\<close>

text \<open>
  The file implements the static class \<^verbatim>\<open>Simulator\<close>: a process-wide pointer to one
  \<^verbatim>\<open>SimulatorImpl\<close> object (the engine), a lazy constructor for it, and one forwarding
  function per engine operation. The engine itself is an abstract class whose
  implementations live in other files; here its virtual methods are a parameter.

  Pointers are object identities: \<open>None\<close> is the null pointer, \<open>Some p\<close> refers to the
  object allocated as number \<open>p\<close>. Identities are handed out by a counter and never
  reused, so that "the same instance" and "a new instance" can be told apart.
\<close>

subsection \<open>Values\<close>

type_synonym Time = int
type_synonym TypeId = string
type_synonym ObjectFactory = TypeId
type_synonym ref = nat
type_synonym pointer = "ref option"

datatype TimePrinter = DefaultTimePrinter
datatype NodePrinter = DefaultNodePrinter

text \<open>
  What ends a call without a result: \<open>Fatal\<close> is \<^verbatim>\<open>NS_FATAL_ERROR\<close> (the process is
  terminated), the two pointer errors are the undefined behaviour of C++ made explicit,
  and \<open>NoReturn\<close> is left to an engine whose \<^verbatim>\<open>Run\<close> never comes back.
\<close>

datatype error = Fatal string | NullPointer | DanglingPointer | NoReturn

definition msg_SetImplementation :: string where
  "msg_SetImplementation =
     ''It is not possible to set the implementation after calling any Simulator:: function. Call Simulator::SetImplementation earlier or after Simulator::Destroy.''"

text \<open>
  The registry's own fatal error, for a type name it does not know. Its wording belongs
  to the registry, which is outside this file; only the fact that the call ends there
  matters here.
\<close>

definition msg_TypeId :: string where
  "msg_TypeId = ''Invalid TypeId for SimulatorImplementationType''"

subsection \<open>The engine interface\<close>

text \<open>
  A virtual method of \<^verbatim>\<open>SimulatorImpl\<close> reads and writes the engine object it is called
  on and may abort. The class is declared in \<^verbatim>\<open>simulator-impl.h\<close>, which is not part of
  the sources, so nothing more is assumed of a method: every one of them may
  change the engine and may fail. \<open>'e\<close> is the engine's state, \<open>'ev\<close> an event
  implementation (\<^verbatim>\<open>EventImpl *\<close>), \<open>'id\<close> an event handle (\<^verbatim>\<open>EventId\<close>).

  A method works on its own engine only. Callbacks that re-enter the facade while the
  engine runs find the singleton pointer set and go to the same engine, which is part of
  what the method does to \<open>'e\<close>; a callback that calls \<^verbatim>\<open>Simulator::Destroy\<close> from inside
  the engine is not modelled.
\<close>

type_synonym ('e, 'r) virtual = "'e \<Rightarrow> error + 'r \<times> 'e"

record ('e, 'ev, 'id) SimulatorImpl =
  impl_Destroy :: "('e, unit) virtual"
  impl_IsFinished :: "('e, bool) virtual"
  impl_Stop :: "('e, unit) virtual"
  impl_Stop_delay :: "Time \<Rightarrow> ('e, unit) virtual"
  impl_Schedule :: "Time \<Rightarrow> 'ev \<Rightarrow> ('e, 'id) virtual"
  impl_ScheduleWithContext :: "32 word \<Rightarrow> Time \<Rightarrow> 'ev \<Rightarrow> ('e, unit) virtual"
  impl_ScheduleNow :: "'ev \<Rightarrow> ('e, 'id) virtual"
  impl_ScheduleDestroy :: "'ev \<Rightarrow> ('e, 'id) virtual"
  impl_Remove :: "'id \<Rightarrow> ('e, unit) virtual"
  impl_Cancel :: "'id \<Rightarrow> ('e, unit) virtual"
  impl_IsExpired :: "'id \<Rightarrow> ('e, bool) virtual"
  impl_Run :: "('e, unit) virtual"
  impl_Now :: "('e, Time) virtual"
  impl_GetDelayLeft :: "'id \<Rightarrow> ('e, Time) virtual"
  impl_GetMaximumSimulationTime :: "('e, Time) virtual"
  impl_SetScheduler :: "ObjectFactory \<Rightarrow> ('e, unit) virtual"
  impl_GetSystemId :: "('e, 32 word) virtual"
  impl_GetContext :: "('e, 32 word) virtual"
  impl_GetEventCount :: "('e, 64 word) virtual"

text \<open>
  The rest of what the file takes from its surroundings: the type registry behind
  \<^verbatim>\<open>ObjectFactory::Create<SimulatorImpl>\<close> (a type name either constructs an engine or
  is refused), and the compile-time switch \<^verbatim>\<open>ENABLE_DES_METRICS\<close>.
\<close>

record ('e, 'ev, 'id) program =
  vtable :: "('e, 'ev, 'id) SimulatorImpl"
  registry :: "TypeId \<Rightarrow> 'e option"
  ENABLE_DES_METRICS :: bool

subsection \<open>The state of the process\<close>

datatype method_name =
    M_Destroy | M_IsFinished | M_Stop | M_Stop_delay | M_Schedule | M_ScheduleWithContext
  | M_ScheduleNow | M_ScheduleDestroy | M_Remove | M_Cancel | M_IsExpired | M_Run | M_Now
  | M_GetDelayLeft | M_GetMaximumSimulationTime | M_SetScheduler | M_GetSystemId
  | M_GetContext | M_GetEventCount

text \<open>
  Every step the facade takes on something outside itself is appended to a trace, in
  the order the statements of the source run.
\<close>

datatype action =
    Constructed ref TypeId
  | Refd ref
  | Unrefd ref
  | Assigned pointer
  | Invoked ref method_name
  | TimePrinterSet "TimePrinter option"
  | NodePrinterSet "NodePrinter option"
  | MarkedTimesCleared
  | Traced Time Time
  | TracedWithContext "32 word" Time Time

record 'e object =
  refcount :: nat
  engine :: 'e

record 'e process =
  impl :: pointer
  heap :: "ref \<rightharpoonup> 'e object"
  next_ref :: ref
  g_simTypeImpl :: TypeId
  g_schedTypeImpl :: TypeId
  log_time_printer :: "TimePrinter option"
  log_node_printer :: "NodePrinter option"
  trace :: "action list"

text \<open>
  At program start the static pointer of \<^verbatim>\<open>PeekImpl\<close> is 0, no engine exists, and the
  two global values hold their defaults.
\<close>

definition program_start :: "'e process" where
  "program_start =
     \<lparr>impl = None, heap = Map.empty, next_ref = 0,
      g_simTypeImpl = ''ns3::DefaultSimulatorImpl'',
      g_schedTypeImpl = ''ns3::MapScheduler'',
      log_time_printer = None, log_node_printer = None, trace = []\<rparr>"

type_synonym ('e, 'r) call = "'e process \<Rightarrow> error + 'r \<times> 'e process"

definition returns :: "'r \<Rightarrow> ('e, 'r) call" where
  "returns x st = Inr (x, st)"

definition andThen :: "('e, 'a) call \<Rightarrow> ('a \<Rightarrow> ('e, 'b) call) \<Rightarrow> ('e, 'b) call" where
  "andThen f g st = (case f st of Inl err \<Rightarrow> Inl err | Inr (x, st') \<Rightarrow> g x st')"

definition emit :: "action \<Rightarrow> 'e process \<Rightarrow> 'e process" where
  "emit a st = st\<lparr>trace := trace st @ [a]\<rparr>"

subsection \<open>Objects, reference counts and hooks\<close>

text \<open>
  Modelled from the spec: \<^verbatim>\<open>ptr.h\<close>, \<^verbatim>\<open>object.h\<close> and \<^verbatim>\<open>object-factory.h\<close> are not among
  the sources. The spec has objects in shared ownership, destroyed once all holders have
  released them, and engines built by a factory keyed by a registered type name. So an
  object carries a count of its holders: \<open>Create\<close> allocates it with one holder
  (the smart pointer it returns), \<open>GetPointer\<close> adds a holder and hands out the raw
  pointer, \<open>Unref\<close> removes one and frees the object with the last. A smart pointer
  made from a raw pointer (\<open>Ptr_from_raw\<close>, the conversion at a \<^verbatim>\<open>return\<close> of type
  \<^verbatim>\<open>Ptr<SimulatorImpl>\<close>) is one more holder of the object, unless the raw pointer is
  null.
\<close>

definition Create :: "('e, 'ev, 'id) program \<Rightarrow> TypeId \<Rightarrow> ('e, pointer) call" where
  "Create W tid st =
     (case registry W tid of
        None \<Rightarrow> Inl (Fatal msg_TypeId)
      | Some e \<Rightarrow>
          Inr (Some (next_ref st),
               emit (Constructed (next_ref st) tid)
                 (st\<lparr>heap := (heap st)(next_ref st \<mapsto> \<lparr>refcount = 1, engine = e\<rparr>),
                     next_ref := Suc (next_ref st)\<rparr>)))"

definition Ref :: "pointer \<Rightarrow> ('e, unit) call" where
  "Ref ptr st =
     (case ptr of
        None \<Rightarrow> Inl NullPointer
      | Some p \<Rightarrow>
          (case heap st p of
             None \<Rightarrow> Inl DanglingPointer
           | Some ob \<Rightarrow>
               Inr ((), emit (Refd p)
                          (st\<lparr>heap := (heap st)(p \<mapsto> ob\<lparr>refcount := Suc (refcount ob)\<rparr>)\<rparr>))))"

definition Unref :: "pointer \<Rightarrow> ('e, unit) call" where
  "Unref ptr st =
     (case ptr of
        None \<Rightarrow> Inl NullPointer
      | Some p \<Rightarrow>
          (case heap st p of
             None \<Rightarrow> Inl DanglingPointer
           | Some ob \<Rightarrow>
               Inr ((), emit (Unrefd p)
                          (st\<lparr>heap := (if refcount ob \<le> 1 then (heap st)(p := None)
                                      else (heap st)(p \<mapsto> ob\<lparr>refcount := refcount ob - 1\<rparr>))\<rparr>))))"

definition GetPointer :: "pointer \<Rightarrow> ('e, pointer) call" where
  "GetPointer ptr = andThen (Ref ptr) (\<lambda>_. returns ptr)"

definition Ptr_from_raw :: "pointer \<Rightarrow> ('e, pointer) call" where
  "Ptr_from_raw raw =
     (if raw = None then returns None else andThen (Ref raw) (\<lambda>_. returns raw))"

text \<open>\<open>arrow ptr name m\<close> is the virtual call \<^verbatim>\<open>ptr->m (...)\<close>.\<close>

definition arrow :: "pointer \<Rightarrow> method_name \<Rightarrow> ('e, 'r) virtual \<Rightarrow> ('e, 'r) call" where
  "arrow ptr name m st =
     (case ptr of
        None \<Rightarrow> Inl NullPointer
      | Some p \<Rightarrow>
          (case heap st p of
             None \<Rightarrow> Inl DanglingPointer
           | Some ob \<Rightarrow>
               (case m (engine ob) of
                  Inl err \<Rightarrow> Inl err
                | Inr (r, e') \<Rightarrow>
                    Inr (r, emit (Invoked p name)
                              (st\<lparr>heap := (heap st)(p \<mapsto> ob\<lparr>engine := e'\<rparr>)\<rparr>)))))"

definition LogSetTimePrinter :: "TimePrinter option \<Rightarrow> ('e, unit) call" where
  "LogSetTimePrinter f st = Inr ((), emit (TimePrinterSet f) (st\<lparr>log_time_printer := f\<rparr>))"

definition LogSetNodePrinter :: "NodePrinter option \<Rightarrow> ('e, unit) call" where
  "LogSetNodePrinter f st = Inr ((), emit (NodePrinterSet f) (st\<lparr>log_node_printer := f\<rparr>))"

definition ClearMarkedTimes :: "('e, unit) call" where
  "ClearMarkedTimes st = Inr ((), emit MarkedTimesCleared st)"

definition DesMetrics_Trace :: "Time \<Rightarrow> Time \<Rightarrow> ('e, unit) call" where
  "DesMetrics_Trace now delay st = Inr ((), emit (Traced now delay) st)"

definition DesMetrics_TraceWithContext :: "32 word \<Rightarrow> Time \<Rightarrow> Time \<Rightarrow> ('e, unit) call" where
  "DesMetrics_TraceWithContext context now delay st =
     Inr ((), emit (TracedWithContext context now delay) st)"

subsection \<open>The singleton pointer\<close>

text \<open>
  \<^verbatim>\<open>PeekImpl\<close> returns the address of its static pointer; \<open>PeekImpl\<close> reads through
  it and \<open>Assign\<close> writes through it.
\<close>

definition PeekImpl :: "('e, pointer) call" where
  "PeekImpl st = Inr (impl st, st)"

definition Assign :: "pointer \<Rightarrow> ('e, unit) call" where
  "Assign ptr st = Inr ((), emit (Assigned ptr) (st\<lparr>impl := ptr\<rparr>))"

definition GetImpl :: "('e, 'ev, 'id) program \<Rightarrow> ('e, pointer) call" where
  "GetImpl W =
     andThen PeekImpl (\<lambda>pimpl.
       if pimpl = None then
         andThen (\<lambda>st. Create W (g_simTypeImpl st) st) (\<lambda>created.
         andThen (GetPointer created) (\<lambda>raw.
         andThen (Assign raw) (\<lambda>_.
         andThen (Unref created) (\<lambda>_.
         andThen PeekImpl (\<lambda>pimpl.
         andThen (\<lambda>st. arrow pimpl M_SetScheduler
                          (impl_SetScheduler (vtable W) (g_schedTypeImpl st)) st) (\<lambda>_.
         andThen (LogSetTimePrinter (Some DefaultTimePrinter)) (\<lambda>_.
         andThen (LogSetNodePrinter (Some DefaultNodePrinter)) (\<lambda>_.
         PeekImpl))))))))
       else PeekImpl)"

subsection \<open>The facade's operations\<close>

text \<open>
  The logging macros (\<^verbatim>\<open>NS_LOG_FUNCTION\<close> and the like) are left out: logging is a
  collaborator outside this file. \<open>'ev\<close> stands for the \<^verbatim>\<open>EventImpl *\<close> that
  \<^verbatim>\<open>GetPointer (event)\<close> yields; events are not objects of the heap modelled here.
\<close>

definition Simulator_Destroy :: "('e, 'ev, 'id) program \<Rightarrow> ('e, unit) call" where
  "Simulator_Destroy W =
     andThen PeekImpl (\<lambda>pimpl.
       if pimpl = None then returns ()
       else
         andThen (LogSetTimePrinter None) (\<lambda>_.
         andThen (LogSetNodePrinter None) (\<lambda>_.
         andThen PeekImpl (\<lambda>pimpl.
         andThen (arrow pimpl M_Destroy (impl_Destroy (vtable W))) (\<lambda>_.
         andThen PeekImpl (\<lambda>pimpl.
         andThen (Unref pimpl) (\<lambda>_.
         Assign None)))))))"

definition Simulator_SetScheduler ::
  "('e, 'ev, 'id) program \<Rightarrow> ObjectFactory \<Rightarrow> ('e, unit) call" where
  "Simulator_SetScheduler W schedulerFactory =
     andThen (GetImpl W) (\<lambda>p.
       arrow p M_SetScheduler (impl_SetScheduler (vtable W) schedulerFactory))"

definition Simulator_IsFinished :: "('e, 'ev, 'id) program \<Rightarrow> ('e, bool) call" where
  "Simulator_IsFinished W =
     andThen (GetImpl W) (\<lambda>p. arrow p M_IsFinished (impl_IsFinished (vtable W)))"

definition Simulator_Run :: "('e, 'ev, 'id) program \<Rightarrow> ('e, unit) call" where
  "Simulator_Run W =
     andThen ClearMarkedTimes (\<lambda>_.
     andThen (GetImpl W) (\<lambda>p. arrow p M_Run (impl_Run (vtable W))))"

definition Simulator_Stop :: "('e, 'ev, 'id) program \<Rightarrow> ('e, unit) call" where
  "Simulator_Stop W =
     andThen (GetImpl W) (\<lambda>p. arrow p M_Stop (impl_Stop (vtable W)))"

definition Simulator_Stop_delay :: "('e, 'ev, 'id) program \<Rightarrow> Time \<Rightarrow> ('e, unit) call" where
  "Simulator_Stop_delay W delay =
     andThen (GetImpl W) (\<lambda>p. arrow p M_Stop_delay (impl_Stop_delay (vtable W) delay))"

definition Simulator_Now :: "('e, 'ev, 'id) program \<Rightarrow> ('e, Time) call" where
  "Simulator_Now W =
     andThen (GetImpl W) (\<lambda>p. arrow p M_Now (impl_Now (vtable W)))"

definition Simulator_GetDelayLeft :: "('e, 'ev, 'id) program \<Rightarrow> 'id \<Rightarrow> ('e, Time) call" where
  "Simulator_GetDelayLeft W eid =
     andThen (GetImpl W) (\<lambda>p. arrow p M_GetDelayLeft (impl_GetDelayLeft (vtable W) eid))"

definition Simulator_DoSchedule ::
  "('e, 'ev, 'id) program \<Rightarrow> Time \<Rightarrow> 'ev \<Rightarrow> ('e, 'id) call" where
  "Simulator_DoSchedule W time ev =
     andThen (if ENABLE_DES_METRICS W
              then andThen (Simulator_Now W) (\<lambda>now. DesMetrics_Trace now time)
              else returns ()) (\<lambda>_.
     andThen (GetImpl W) (\<lambda>p. arrow p M_Schedule (impl_Schedule (vtable W) time ev)))"

definition Simulator_DoScheduleNow :: "('e, 'ev, 'id) program \<Rightarrow> 'ev \<Rightarrow> ('e, 'id) call" where
  "Simulator_DoScheduleNow W ev =
     andThen (if ENABLE_DES_METRICS W
              then andThen (Simulator_Now W) (\<lambda>now. DesMetrics_Trace now 0)
              else returns ()) (\<lambda>_.
     andThen (GetImpl W) (\<lambda>p. arrow p M_ScheduleNow (impl_ScheduleNow (vtable W) ev)))"

definition Simulator_DoScheduleDestroy ::
  "('e, 'ev, 'id) program \<Rightarrow> 'ev \<Rightarrow> ('e, 'id) call" where
  "Simulator_DoScheduleDestroy W ev =
     andThen (GetImpl W) (\<lambda>p.
       arrow p M_ScheduleDestroy (impl_ScheduleDestroy (vtable W) ev))"

definition Simulator_Schedule ::
  "('e, 'ev, 'id) program \<Rightarrow> Time \<Rightarrow> 'ev \<Rightarrow> ('e, 'id) call" where
  "Simulator_Schedule W delay event = Simulator_DoSchedule W delay event"

definition Simulator_ScheduleNow :: "('e, 'ev, 'id) program \<Rightarrow> 'ev \<Rightarrow> ('e, 'id) call" where
  "Simulator_ScheduleNow W ev = Simulator_DoScheduleNow W ev"

definition Simulator_ScheduleWithContext ::
  "('e, 'ev, 'id) program \<Rightarrow> 32 word \<Rightarrow> Time \<Rightarrow> 'ev \<Rightarrow> ('e, unit) call" where
  "Simulator_ScheduleWithContext W context delay ev =
     andThen (if ENABLE_DES_METRICS W
              then andThen (Simulator_Now W)
                     (\<lambda>now. DesMetrics_TraceWithContext context now delay)
              else returns ()) (\<lambda>_.
     andThen (GetImpl W) (\<lambda>p.
       arrow p M_ScheduleWithContext (impl_ScheduleWithContext (vtable W) context delay ev)))"

definition Simulator_ScheduleDestroy ::
  "('e, 'ev, 'id) program \<Rightarrow> 'ev \<Rightarrow> ('e, 'id) call" where
  "Simulator_ScheduleDestroy W ev = Simulator_DoScheduleDestroy W ev"

definition Simulator_Remove :: "('e, 'ev, 'id) program \<Rightarrow> 'id \<Rightarrow> ('e, unit) call" where
  "Simulator_Remove W eid =
     andThen PeekImpl (\<lambda>pimpl.
       if pimpl = None then returns ()
       else andThen (GetImpl W) (\<lambda>p. arrow p M_Remove (impl_Remove (vtable W) eid)))"

definition Simulator_Cancel :: "('e, 'ev, 'id) program \<Rightarrow> 'id \<Rightarrow> ('e, unit) call" where
  "Simulator_Cancel W eid =
     andThen PeekImpl (\<lambda>pimpl.
       if pimpl = None then returns ()
       else andThen (GetImpl W) (\<lambda>p. arrow p M_Cancel (impl_Cancel (vtable W) eid)))"

definition Simulator_IsExpired :: "('e, 'ev, 'id) program \<Rightarrow> 'id \<Rightarrow> ('e, bool) call" where
  "Simulator_IsExpired W eid =
     andThen PeekImpl (\<lambda>pimpl.
       if pimpl = None then returns True
       else andThen (GetImpl W) (\<lambda>p. arrow p M_IsExpired (impl_IsExpired (vtable W) eid)))"

text \<open>The free function \<^verbatim>\<open>ns3::Now\<close>.\<close>

definition Now :: "('e, 'ev, 'id) program \<Rightarrow> ('e, Time) call" where
  "Now W = Simulator_Now W"

definition Simulator_GetMaximumSimulationTime ::
  "('e, 'ev, 'id) program \<Rightarrow> ('e, Time) call" where
  "Simulator_GetMaximumSimulationTime W =
     andThen (GetImpl W) (\<lambda>p.
       arrow p M_GetMaximumSimulationTime (impl_GetMaximumSimulationTime (vtable W)))"

definition Simulator_GetContext :: "('e, 'ev, 'id) program \<Rightarrow> ('e, 32 word) call" where
  "Simulator_GetContext W =
     andThen (GetImpl W) (\<lambda>p. arrow p M_GetContext (impl_GetContext (vtable W)))"

definition Simulator_GetEventCount :: "('e, 'ev, 'id) program \<Rightarrow> ('e, 64 word) call" where
  "Simulator_GetEventCount W =
     andThen (GetImpl W) (\<lambda>p. arrow p M_GetEventCount (impl_GetEventCount (vtable W)))"

definition Simulator_GetSystemId :: "('e, 'ev, 'id) program \<Rightarrow> ('e, 32 word) call" where
  "Simulator_GetSystemId W =
     andThen PeekImpl (\<lambda>pimpl.
       if pimpl \<noteq> None
       then andThen (GetImpl W) (\<lambda>p. arrow p M_GetSystemId (impl_GetSystemId (vtable W)))
       else returns 0)"

text \<open>
  \<^verbatim>\<open>SetImplementation\<close> takes its smart pointer by value; the copy made for the call
  and its release at the return cancel out and are not traced.
\<close>

definition Simulator_SetImplementation ::
  "('e, 'ev, 'id) program \<Rightarrow> pointer \<Rightarrow> ('e, unit) call" where
  "Simulator_SetImplementation W ptr =
     andThen PeekImpl (\<lambda>pimpl.
       if pimpl \<noteq> None then (\<lambda>_. Inl (Fatal msg_SetImplementation))
       else
         andThen (GetPointer ptr) (\<lambda>raw.
         andThen (Assign raw) (\<lambda>_.
         andThen (\<lambda>st. arrow ptr M_SetScheduler
                          (impl_SetScheduler (vtable W) (g_schedTypeImpl st)) st) (\<lambda>_.
         andThen (LogSetTimePrinter (Some DefaultTimePrinter)) (\<lambda>_.
         LogSetNodePrinter (Some DefaultNodePrinter))))))"

text \<open>
  \<^verbatim>\<open>GetImplementation\<close> returns a smart pointer: the raw pointer of \<^verbatim>\<open>GetImpl\<close> is
  converted, and the caller holds a reference of its own to the engine.
\<close>

definition Simulator_GetImplementation :: "('e, 'ev, 'id) program \<Rightarrow> ('e, pointer) call" where
  "Simulator_GetImplementation W = andThen (GetImpl W) Ptr_from_raw"

section \<open>A reference engine\<close>

text \<open>
  Modelled from the spec: the engine behind the facade (\<^verbatim>\<open>DefaultSimulatorImpl\<close>, the
  type the global value \<^verbatim>\<open>SimulatorImplementationType\<close> names by default) is not among
  the sources. What follows is the engine of the spec's sections 3 and 4: a clock, a
  context, a sequence counter, a stop flag, a scheduler ordered by time and then by
  sequence number, and a list of destroy-phase events. A callback is a label; invoking
  it records the label, and the internal stop event sets the stop flag. Callbacks that
  schedule further events are outside this model.
\<close>

datatype callback = Callback nat | StopCallback

record Event =
  ev_time :: Time
  ev_context :: "32 word"
  ev_uid :: nat
  ev_cancelled :: bool
  ev_callback :: callback

record EventId =
  id_time :: Time
  id_context :: "32 word"
  id_uid :: nat

record DefaultSimulatorImpl =
  current_time :: Time
  current_context :: "32 word"
  next_uid :: nat
  event_count :: "64 word"
  stop_flag :: bool
  events :: "Event list"
  scheduler_type :: "TypeId option"
  destroy_events :: "Event list"
  invoked :: "nat list"

definition DefaultSimulatorImpl_new :: DefaultSimulatorImpl where
  "DefaultSimulatorImpl_new =
     \<lparr>current_time = 0, current_context = 0, next_uid = 0, event_count = 0,
      stop_flag = False, events = [], scheduler_type = None, destroy_events = [],
      invoked = []\<rparr>"

definition msg_Schedule :: string where
  "msg_Schedule = ''Schedule: the event would be earlier than the current time''"

definition msg_Run :: string where
  "msg_Run = ''Run: the next event is earlier than the current time''"

fun Scheduler_Insert :: "Event \<Rightarrow> Event list \<Rightarrow> Event list" where
  "Scheduler_Insert ev [] = [ev]"
| "Scheduler_Insert ev (x # xs) =
     (if ev_time ev < ev_time x \<or> (ev_time ev = ev_time x \<and> ev_uid ev < ev_uid x)
      then ev # x # xs else x # Scheduler_Insert ev xs)"

definition handle_of :: "Event \<Rightarrow> EventId" where
  "handle_of ev = \<lparr>id_time = ev_time ev, id_context = ev_context ev, id_uid = ev_uid ev\<rparr>"

definition insert_at ::
  "Time \<Rightarrow> 32 word \<Rightarrow> callback \<Rightarrow> DefaultSimulatorImpl \<Rightarrow> EventId \<times> DefaultSimulatorImpl" where
  "insert_at t c cb e =
     (let ev = \<lparr>ev_time = t, ev_context = c, ev_uid = next_uid e, ev_cancelled = False,
                ev_callback = cb\<rparr>
      in (handle_of ev, e\<lparr>events := Scheduler_Insert ev (events e),
                           next_uid := Suc (next_uid e)\<rparr>))"

definition Default_Schedule :: "Time \<Rightarrow> nat \<Rightarrow> (DefaultSimulatorImpl, EventId) virtual" where
  "Default_Schedule delay ev e =
     (if current_time e + delay < current_time e then Inl (Fatal msg_Schedule)
      else Inr (insert_at (current_time e + delay) (current_context e) (Callback ev) e))"

definition Default_ScheduleWithContext ::
  "32 word \<Rightarrow> Time \<Rightarrow> nat \<Rightarrow> (DefaultSimulatorImpl, unit) virtual" where
  "Default_ScheduleWithContext context delay ev e =
     (if current_time e + delay < current_time e then Inl (Fatal msg_Schedule)
      else Inr ((), snd (insert_at (current_time e + delay) context (Callback ev) e)))"

definition Default_ScheduleNow :: "nat \<Rightarrow> (DefaultSimulatorImpl, EventId) virtual" where
  "Default_ScheduleNow ev e =
     Inr (insert_at (current_time e) (current_context e) (Callback ev) e)"

definition Default_ScheduleDestroy :: "nat \<Rightarrow> (DefaultSimulatorImpl, EventId) virtual" where
  "Default_ScheduleDestroy ev e =
     (let d = \<lparr>ev_time = current_time e, ev_context = current_context e,
               ev_uid = next_uid e, ev_cancelled = False, ev_callback = Callback ev\<rparr>
      in Inr (handle_of d, e\<lparr>destroy_events := destroy_events e @ [d],
                               next_uid := Suc (next_uid e)\<rparr>))"

definition mark_cancelled :: "nat \<Rightarrow> Event list \<Rightarrow> Event list" where
  "mark_cancelled u xs = map (\<lambda>x. if ev_uid x = u then x\<lparr>ev_cancelled := True\<rparr> else x) xs"

definition Default_Cancel :: "EventId \<Rightarrow> (DefaultSimulatorImpl, unit) virtual" where
  "Default_Cancel eid e =
     Inr ((), e\<lparr>events := mark_cancelled (id_uid eid) (events e),
                destroy_events := mark_cancelled (id_uid eid) (destroy_events e)\<rparr>)"

definition Default_Remove :: "EventId \<Rightarrow> (DefaultSimulatorImpl, unit) virtual" where
  "Default_Remove eid e =
     Inr ((), e\<lparr>events := filter (\<lambda>x. ev_uid x \<noteq> id_uid eid) (events e)\<rparr>)"

definition pending :: "EventId \<Rightarrow> DefaultSimulatorImpl \<Rightarrow> bool" where
  "pending eid e =
     list_ex (\<lambda>x. ev_uid x = id_uid eid \<and> \<not> ev_cancelled x) (events e @ destroy_events e)"

definition Default_IsExpired :: "EventId \<Rightarrow> (DefaultSimulatorImpl, bool) virtual" where
  "Default_IsExpired eid e = Inr (\<not> pending eid e, e)"

definition Default_GetDelayLeft :: "EventId \<Rightarrow> (DefaultSimulatorImpl, Time) virtual" where
  "Default_GetDelayLeft eid e =
     Inr (if pending eid e then id_time eid - current_time e else 0, e)"

definition execute :: "Event \<Rightarrow> DefaultSimulatorImpl \<Rightarrow> DefaultSimulatorImpl" where
  "execute ev e =
     (if ev_cancelled ev then e
      else (case ev_callback ev of
              Callback n \<Rightarrow> e\<lparr>invoked := invoked e @ [n], event_count := event_count e + 1\<rparr>
            | StopCallback \<Rightarrow> e\<lparr>stop_flag := True, event_count := event_count e + 1\<rparr>))"

text \<open>
  The run loop, on the scheduler's content: one event is popped per iteration, so the
  loop is a recursion on the list of pending events.
\<close>

fun run_events :: "Event list \<Rightarrow> DefaultSimulatorImpl \<Rightarrow> error + DefaultSimulatorImpl" where
  "run_events [] e = Inr (e\<lparr>events := []\<rparr>)"
| "run_events (ev # rest) e =
     (if stop_flag e then Inr (e\<lparr>events := ev # rest\<rparr>)
      else if ev_time ev < current_time e then Inl (Fatal msg_Run)
      else run_events rest
             (execute ev (e\<lparr>current_time := ev_time ev, current_context := ev_context ev\<rparr>)))"

definition Default_Run :: "(DefaultSimulatorImpl, unit) virtual" where
  "Default_Run e = map_sum (\<lambda>err. err) (\<lambda>e'. ((), e')) (run_events (events e) e)"

definition Default_IsFinished :: "(DefaultSimulatorImpl, bool) virtual" where
  "Default_IsFinished e = Inr (events e = [] \<or> stop_flag e, e)"

definition Default_Stop :: "(DefaultSimulatorImpl, unit) virtual" where
  "Default_Stop e = Inr ((), e\<lparr>stop_flag := True\<rparr>)"

definition Default_Stop_delay :: "Time \<Rightarrow> (DefaultSimulatorImpl, unit) virtual" where
  "Default_Stop_delay delay e =
     (if current_time e + delay < current_time e then Inl (Fatal msg_Schedule)
      else Inr ((), snd (insert_at (current_time e + delay) (current_context e) StopCallback e)))"

definition Default_Destroy :: "(DefaultSimulatorImpl, unit) virtual" where
  "Default_Destroy e =
     Inr ((), (foldl (\<lambda>acc d. execute d acc) e (destroy_events e))
                \<lparr>destroy_events := [], events := [], scheduler_type := None\<rparr>)"

definition Default_SetScheduler :: "ObjectFactory \<Rightarrow> (DefaultSimulatorImpl, unit) virtual" where
  "Default_SetScheduler schedulerFactory e = Inr ((), e\<lparr>scheduler_type := Some schedulerFactory\<rparr>)"

definition Default_Now :: "(DefaultSimulatorImpl, Time) virtual" where
  "Default_Now e = Inr (current_time e, e)"

definition Default_GetMaximumSimulationTime :: "(DefaultSimulatorImpl, Time) virtual" where
  "Default_GetMaximumSimulationTime e = Inr (2 ^ 63 - 1, e)"

definition Default_GetSystemId :: "(DefaultSimulatorImpl, 32 word) virtual" where
  "Default_GetSystemId e = Inr (0, e)"

definition Default_GetContext :: "(DefaultSimulatorImpl, 32 word) virtual" where
  "Default_GetContext e = Inr (current_context e, e)"

definition Default_GetEventCount :: "(DefaultSimulatorImpl, 64 word) virtual" where
  "Default_GetEventCount e = Inr (event_count e, e)"

definition Default_vtable :: "(DefaultSimulatorImpl, nat, EventId) SimulatorImpl" where
  "Default_vtable =
     \<lparr>impl_Destroy = Default_Destroy,
      impl_IsFinished = Default_IsFinished,
      impl_Stop = Default_Stop,
      impl_Stop_delay = Default_Stop_delay,
      impl_Schedule = Default_Schedule,
      impl_ScheduleWithContext = Default_ScheduleWithContext,
      impl_ScheduleNow = Default_ScheduleNow,
      impl_ScheduleDestroy = Default_ScheduleDestroy,
      impl_Remove = Default_Remove,
      impl_Cancel = Default_Cancel,
      impl_IsExpired = Default_IsExpired,
      impl_Run = Default_Run,
      impl_Now = Default_Now,
      impl_GetDelayLeft = Default_GetDelayLeft,
      impl_GetMaximumSimulationTime = Default_GetMaximumSimulationTime,
      impl_SetScheduler = Default_SetScheduler,
      impl_GetSystemId = Default_GetSystemId,
      impl_GetContext = Default_GetContext,
      impl_GetEventCount = Default_GetEventCount\<rparr>"

definition Default_registry :: "TypeId \<Rightarrow> DefaultSimulatorImpl option" where
  "Default_registry tid =
     (if tid = ''ns3::DefaultSimulatorImpl'' then Some DefaultSimulatorImpl_new else None)"

definition ns3 :: "bool \<Rightarrow> (DefaultSimulatorImpl, nat, EventId) program" where
  "ns3 metrics =
     \<lparr>vtable = Default_vtable, registry = Default_registry, ENABLE_DES_METRICS = metrics\<rparr>"

section \<open>Client programs and observations\<close>

text \<open>
  A client program is a list of calls of the facade, run in order and stopped by the
  first one that does not return.
\<close>

datatype ('ev, 'id) facade_call =
    Call_Destroy
  | Call_SetScheduler ObjectFactory
  | Call_IsFinished
  | Call_Run
  | Call_Stop
  | Call_Stop_delay Time
  | Call_Now
  | Call_GetDelayLeft 'id
  | Call_Schedule Time 'ev
  | Call_ScheduleNow 'ev
  | Call_ScheduleWithContext "32 word" Time 'ev
  | Call_ScheduleDestroy 'ev
  | Call_Remove 'id
  | Call_Cancel 'id
  | Call_IsExpired 'id
  | Call_GetMaximumSimulationTime
  | Call_GetContext
  | Call_GetEventCount
  | Call_GetSystemId
  | Call_SetImplementation pointer
  | Call_GetImplementation

definition result_of :: "error + 'r \<times> 's \<Rightarrow> 'r option" where
  "result_of x = (case x of Inl err \<Rightarrow> None | Inr (r, st) \<Rightarrow> Some r)"

definition state_of :: "error + 'r \<times> 's \<Rightarrow> 's option" where
  "state_of x = (case x of Inl err \<Rightarrow> None | Inr (r, st) \<Rightarrow> Some st)"

definition state_after :: "error + 'r \<times> 's \<Rightarrow> error + 's" where
  "state_after x = (case x of Inl err \<Rightarrow> Inl err | Inr (r, st) \<Rightarrow> Inr st)"

fun exec ::
  "('e, 'ev, 'id) program \<Rightarrow> ('ev, 'id) facade_call \<Rightarrow> 'e process \<Rightarrow> error + 'e process" where
  "exec W Call_Destroy st = state_after (Simulator_Destroy W st)"
| "exec W (Call_SetScheduler f) st = state_after (Simulator_SetScheduler W f st)"
| "exec W Call_IsFinished st = state_after (Simulator_IsFinished W st)"
| "exec W Call_Run st = state_after (Simulator_Run W st)"
| "exec W Call_Stop st = state_after (Simulator_Stop W st)"
| "exec W (Call_Stop_delay d) st = state_after (Simulator_Stop_delay W d st)"
| "exec W Call_Now st = state_after (Simulator_Now W st)"
| "exec W (Call_GetDelayLeft eid) st = state_after (Simulator_GetDelayLeft W eid st)"
| "exec W (Call_Schedule d ev) st = state_after (Simulator_Schedule W d ev st)"
| "exec W (Call_ScheduleNow ev) st = state_after (Simulator_ScheduleNow W ev st)"
| "exec W (Call_ScheduleWithContext c d ev) st =
     state_after (Simulator_ScheduleWithContext W c d ev st)"
| "exec W (Call_ScheduleDestroy ev) st = state_after (Simulator_ScheduleDestroy W ev st)"
| "exec W (Call_Remove eid) st = state_after (Simulator_Remove W eid st)"
| "exec W (Call_Cancel eid) st = state_after (Simulator_Cancel W eid st)"
| "exec W (Call_IsExpired eid) st = state_after (Simulator_IsExpired W eid st)"
| "exec W Call_GetMaximumSimulationTime st =
     state_after (Simulator_GetMaximumSimulationTime W st)"
| "exec W Call_GetContext st = state_after (Simulator_GetContext W st)"
| "exec W Call_GetEventCount st = state_after (Simulator_GetEventCount W st)"
| "exec W Call_GetSystemId st = state_after (Simulator_GetSystemId W st)"
| "exec W (Call_SetImplementation ptr) st = state_after (Simulator_SetImplementation W ptr st)"
| "exec W Call_GetImplementation st = state_after (Simulator_GetImplementation W st)"

fun run ::
  "('e, 'ev, 'id) program \<Rightarrow> ('ev, 'id) facade_call list \<Rightarrow> 'e process \<Rightarrow> error + 'e process" where
  "run W [] st = Inr st"
| "run W (c # cs) st = (case exec W c st of Inl err \<Rightarrow> Inl err | Inr st' \<Rightarrow> run W cs st')"

text \<open>
  The calls that go through \<^verbatim>\<open>GetImpl\<close> whatever the singleton pointer holds: the calls
  that need the engine.
\<close>

fun needs_engine :: "('ev, 'id) facade_call \<Rightarrow> bool" where
  "needs_engine Call_Destroy = False"
| "needs_engine (Call_Remove eid) = False"
| "needs_engine (Call_Cancel eid) = False"
| "needs_engine (Call_IsExpired eid) = False"
| "needs_engine Call_GetSystemId = False"
| "needs_engine (Call_SetImplementation ptr) = False"
| "needs_engine c = True"

text \<open>The actions a call has added to the trace.\<close>

definition new_actions :: "'e process \<Rightarrow> 'e process \<Rightarrow> action list" where
  "new_actions st st' = drop (length (trace st)) (trace st')"

text \<open>
  What a call that only uses the engine \<open>p\<close> may add to the trace: calls of methods of
  \<open>p\<close>, references taken to \<open>p\<close>, and notifications of the metrics and time
  collaborators.
\<close>

fun forwards_to :: "ref \<Rightarrow> action \<Rightarrow> bool" where
  "forwards_to p (Invoked q m) = (q = p)"
| "forwards_to p (Refd q) = (q = p)"
| "forwards_to p MarkedTimesCleared = True"
| "forwards_to p (Traced now delay) = True"
| "forwards_to p (TracedWithContext c now delay) = True"
| "forwards_to p a = False"

text \<open>
  The actions of the lazy construction in \<^verbatim>\<open>GetImpl\<close>, for the engine allocated as
  \<open>p\<close> from the type name \<open>tid\<close>, in the order of the source.
\<close>

definition construction :: "ref \<Rightarrow> TypeId \<Rightarrow> action list" where
  "construction p tid =
     [Constructed p tid, Refd p, Assigned (Some p), Unrefd p, Invoked p M_SetScheduler,
      TimePrinterSet (Some DefaultTimePrinter), NodePrinterSet (Some DefaultNodePrinter)]"

text \<open>
  The actions of the teardown in \<^verbatim>\<open>Simulator::Destroy\<close> of the engine \<open>p\<close>, in the
  order of the source.
\<close>

definition teardown :: "ref \<Rightarrow> action list" where
  "teardown p =
     [TimePrinterSet None, NodePrinterSet None, Invoked p M_Destroy, Unrefd p, Assigned None]"

text \<open>An action that names an object or the singleton pointer names \<open>p\<close>.\<close>

fun concerns :: "ref \<Rightarrow> action \<Rightarrow> bool" where
  "concerns p (Constructed q tid) = (q = p)"
| "concerns p (Refd q) = (q = p)"
| "concerns p (Unrefd q) = (q = p)"
| "concerns p (Assigned ptr) = (ptr = Some p)"
| "concerns p (Invoked q m) = (q = p)"
| "concerns p a = True"

fun is_Constructed :: "action \<Rightarrow> bool" where
  "is_Constructed (Constructed p tid) = True"
| "is_Constructed a = False"

text \<open>
  The allocator's invariant: no object lives at an identity the counter has yet to
  hand out.
\<close>

definition allocated :: "'e process \<Rightarrow> bool" where
  "allocated st = (\<forall>q. next_ref st \<le> q \<longrightarrow> heap st q = None)"

text \<open>
  The trace names the method that was invoked. \<open>as_Schedule\<close> reads a call of
  \<^verbatim>\<open>ScheduleNow\<close> as a call of \<^verbatim>\<open>Schedule\<close>, to compare two runs up to that name.
\<close>

fun as_Schedule :: "action \<Rightarrow> action" where
  "as_Schedule (Invoked p M_ScheduleNow) = Invoked p M_Schedule"
| "as_Schedule a = a"

definition up_to_name :: "error + 'r \<times> 'e process \<Rightarrow> error + 'r \<times> 'e process" where
  "up_to_name x =
     (case x of Inl err \<Rightarrow> Inl err
      | Inr (r, st) \<Rightarrow> Inr (r, st\<lparr>trace := map as_Schedule (trace st)\<rparr>))"

subsection \<open>Forwarding, as the specification has it\<close>




text \<open>
  What a call that goes through \<^verbatim>\<open>GetImpl\<close> and returns does to the singleton pointer
  and to the trace. If the pointer held an engine, it holds the same engine afterwards
  and the call has only forwarded to it. If it was null, it holds the engine that the
  call has constructed, and apart from the construction the call has only forwarded to
  that engine.
\<close>

definition call_spec :: "'e process \<Rightarrow> 'e process \<Rightarrow> bool" where
  "call_spec st st' =
     (case impl st of
        Some p \<Rightarrow> impl st' = Some p \<and>
          (\<exists>post. trace st' = trace st @ post \<and> list_all (forwards_to p) post)
      | None \<Rightarrow> impl st' = Some (next_ref st) \<and>
          (\<exists>pre post. trace st' =
              trace st @ pre @ construction (next_ref st) (g_simTypeImpl st) @ post \<and>
            list_all (forwards_to (next_ref st)) pre \<and>
            list_all (forwards_to (next_ref st)) post))"

text \<open>A call keeps the allocator's invariant and never moves the counter back.\<close>

definition keeps :: "('e, 'r) call \<Rightarrow> bool" where
  "keeps f = (\<forall>st r st'. allocated st \<longrightarrow> f st = Inr (r, st') \<longrightarrow>
                 allocated st' \<and> next_ref st \<le> next_ref st')"

subsection \<open>Some states of a process running the reference engine\<close>

text \<open>After the first call that needed the engine.\<close>

definition engine_running :: "DefaultSimulatorImpl process" where
  "engine_running =
     \<lparr>impl = Some 0,
      heap = [0 \<mapsto> \<lparr>refcount = 1,
                    engine = DefaultSimulatorImpl_new
                               \<lparr>scheduler_type := Some ''ns3::MapScheduler''\<rparr>\<rparr>],
      next_ref = 1,
      g_simTypeImpl = ''ns3::DefaultSimulatorImpl'',
      g_schedTypeImpl = ''ns3::MapScheduler'',
      log_time_printer = Some DefaultTimePrinter,
      log_node_printer = Some DefaultNodePrinter,
      trace = [Constructed 0 ''ns3::DefaultSimulatorImpl'', Refd 0, Assigned (Some 0),
               Unrefd 0, Invoked 0 M_SetScheduler, TimePrinterSet (Some DefaultTimePrinter),
               NodePrinterSet (Some DefaultNodePrinter)]\<rparr>"

text \<open>After that and \<^verbatim>\<open>Simulator::Destroy\<close>.\<close>

definition destroyed :: "DefaultSimulatorImpl process" where
  "destroyed =
     \<lparr>impl = None,
      heap = Map.empty,
      next_ref = 1,
      g_simTypeImpl = ''ns3::DefaultSimulatorImpl'',
      g_schedTypeImpl = ''ns3::MapScheduler'',
      log_time_printer = None,
      log_node_printer = None,
      trace = [Constructed 0 ''ns3::DefaultSimulatorImpl'', Refd 0, Assigned (Some 0),
               Unrefd 0, Invoked 0 M_SetScheduler, TimePrinterSet (Some DefaultTimePrinter),
               NodePrinterSet (Some DefaultNodePrinter),
               TimePrinterSet None, NodePrinterSet None, Invoked 0 M_Destroy, Unrefd 0,
               Assigned None]\<rparr>"

text \<open>The client has built an engine of its own before any call of the facade.\<close>

definition engine_provided :: "DefaultSimulatorImpl process" where
  "engine_provided =
     \<lparr>impl = None,
      heap = [0 \<mapsto> \<lparr>refcount = 1, engine = DefaultSimulatorImpl_new\<rparr>],
      next_ref = 1,
      g_simTypeImpl = ''ns3::DefaultSimulatorImpl'',
      g_schedTypeImpl = ''ns3::MapScheduler'',
      log_time_printer = None,
      log_node_printer = None,
      trace = [Constructed 0 ''ns3::DefaultSimulatorImpl'']\<rparr>"

text \<open>
  The client has built an engine of its own while the facade's engine was running, and
  has then called \<^verbatim>\<open>Simulator::Destroy\<close>.
\<close>

definition second_engine_provided :: "DefaultSimulatorImpl process" where
  "second_engine_provided =
     \<lparr>impl = Some 0,
      heap = [0 \<mapsto> \<lparr>refcount = 1,
                    engine = DefaultSimulatorImpl_new
                               \<lparr>scheduler_type := Some ''ns3::MapScheduler''\<rparr>\<rparr>,
              1 \<mapsto> \<lparr>refcount = 1, engine = DefaultSimulatorImpl_new\<rparr>],
      next_ref = 2,
      g_simTypeImpl = ''ns3::DefaultSimulatorImpl'',
      g_schedTypeImpl = ''ns3::MapScheduler'',
      log_time_printer = Some DefaultTimePrinter,
      log_node_printer = Some DefaultNodePrinter,
      trace = [Constructed 0 ''ns3::DefaultSimulatorImpl'', Refd 0, Assigned (Some 0),
               Unrefd 0, Invoked 0 M_SetScheduler, TimePrinterSet (Some DefaultTimePrinter),
               NodePrinterSet (Some DefaultNodePrinter),
               Constructed 1 ''ns3::DefaultSimulatorImpl'']\<rparr>"

definition destroyed_second_provided :: "DefaultSimulatorImpl process" where
  "destroyed_second_provided =
     \<lparr>impl = None,
      heap = [1 \<mapsto> \<lparr>refcount = 1, engine = DefaultSimulatorImpl_new\<rparr>],
      next_ref = 2,
      g_simTypeImpl = ''ns3::DefaultSimulatorImpl'',
      g_schedTypeImpl = ''ns3::MapScheduler'',
      log_time_printer = None,
      log_node_printer = None,
      trace = [Constructed 0 ''ns3::DefaultSimulatorImpl'', Refd 0, Assigned (Some 0),
               Unrefd 0, Invoked 0 M_SetScheduler, TimePrinterSet (Some DefaultTimePrinter),
               NodePrinterSet (Some DefaultNodePrinter),
               Constructed 1 ''ns3::DefaultSimulatorImpl'',
               TimePrinterSet None, NodePrinterSet None, Invoked 0 M_Destroy, Unrefd 0,
               Assigned None]\<rparr>"



section \<open>Properties\<close>

subsection \<open>The steps of the facade\<close>

lemmas steps =
  andThen_def returns_def PeekImpl_def Assign_def emit_def Create_def Ref_def Unref_def
  GetPointer_def arrow_def LogSetTimePrinter_def LogSetNodePrinter_def ClearMarkedTimes_def
  DesMetrics_Trace_def DesMetrics_TraceWithContext_def

lemma GetImpl_existing: "impl st = Some p \<Longrightarrow> GetImpl W st = Inr (Some p, st)"
  by (simp add: GetImpl_def steps)

lemma GetImpl_constructs:
  assumes "impl st = None"
    and "registry W (g_simTypeImpl st) = Some e0"
    and "impl_SetScheduler (vtable W) (g_schedTypeImpl st) e0 = Inr ((), e1)"
  shows "GetImpl W st =
     Inr (Some (next_ref st),
          st\<lparr>impl := Some (next_ref st),
             heap := (heap st)(next_ref st \<mapsto> \<lparr>refcount = 1, engine = e1\<rparr>),
             next_ref := Suc (next_ref st),
             log_time_printer := Some DefaultTimePrinter,
             log_node_printer := Some DefaultNodePrinter,
             trace := trace st @
               [Constructed (next_ref st) (g_simTypeImpl st), Refd (next_ref st),
                Assigned (Some (next_ref st)), Unrefd (next_ref st),
                Invoked (next_ref st) M_SetScheduler,
                TimePrinterSet (Some DefaultTimePrinter),
                NodePrinterSet (Some DefaultNodePrinter)]\<rparr>)"
  using assms by (simp add: GetImpl_def steps)

lemma Destroy_existing:
  assumes "impl st = Some p"
    and "heap st p = Some ob"
    and "impl_Destroy (vtable W) (engine ob) = Inr ((), e')"
  shows "Simulator_Destroy W st =
     Inr ((), st\<lparr>impl := None,
                 heap := (if refcount ob \<le> 1 then (heap st)(p := None)
                          else (heap st)(p \<mapsto> ob\<lparr>engine := e',
                                                      refcount := refcount ob - 1\<rparr>)),
                 log_time_printer := None, log_node_printer := None,
                 trace := trace st @
                   [TimePrinterSet None, NodePrinterSet None, Invoked p M_Destroy,
                    Unrefd p, Assigned None]\<rparr>)"
  using assms by (simp add: Simulator_Destroy_def steps)

lemma Destroy_returned:
  assumes "Simulator_Destroy W st = Inr ((), st1)"
  shows "impl st1 = None \<and> next_ref st1 = next_ref st \<and>
         g_simTypeImpl st1 = g_simTypeImpl st \<and> g_schedTypeImpl st1 = g_schedTypeImpl st \<and>
         (\<forall>q. heap st q = None \<longrightarrow> heap st1 q = None) \<and>
         (\<forall>p. impl st = Some p \<longrightarrow> heap st p \<noteq> None)"
  using assms
  by (cases "impl st")
     (auto simp: Simulator_Destroy_def steps split: option.splits sum.splits if_splits)

subsection \<open>Calls that go through the lazy constructor\<close>

lemmas facade =
  Simulator_Destroy_def Simulator_SetScheduler_def Simulator_IsFinished_def Simulator_Run_def
  Simulator_Stop_def Simulator_Stop_delay_def Simulator_Now_def Simulator_GetDelayLeft_def
  Simulator_DoSchedule_def Simulator_DoScheduleNow_def Simulator_DoScheduleDestroy_def
  Simulator_Schedule_def Simulator_ScheduleNow_def Simulator_ScheduleWithContext_def
  Simulator_ScheduleDestroy_def Simulator_Remove_def Simulator_Cancel_def
  Simulator_IsExpired_def Simulator_GetMaximumSimulationTime_def Simulator_GetContext_def
  Simulator_GetEventCount_def Simulator_GetSystemId_def Simulator_SetImplementation_def
  Simulator_GetImplementation_def

lemma andThen_Inr:
  "andThen f g st = Inr (r, st'') \<longleftrightarrow> (\<exists>x st'. f st = Inr (x, st') \<and> g x st' = Inr (r, st''))"
  by (auto simp: andThen_def split: sum.splits)

lemma state_after_Inr: "state_after x = Inr st' \<longleftrightarrow> (\<exists>r. x = Inr (r, st'))"
  by (auto simp: state_after_def split: sum.splits)

lemma andThen_ClearMarkedTimes:
  "andThen ClearMarkedTimes g st = g () (emit MarkedTimesCleared st)"
  by (simp add: andThen_def ClearMarkedTimes_def)

lemma GetImpl_first:
  assumes "GetImpl W st = Inr (r, st')" and "impl st = None"
  shows "r = Some (next_ref st) \<and> impl st' = Some (next_ref st) \<and>
         trace st' = trace st @ construction (next_ref st) (g_simTypeImpl st)"
  using assms
  by (auto simp: GetImpl_def steps construction_def split: option.splits sum.splits)

lemma arrow_returned:
  assumes "arrow ptr name m st = Inr (r, st')"
  shows "\<exists>p. ptr = Some p \<and> impl st' = impl st \<and> trace st' = trace st @ [Invoked p name]"
  using assms by (auto simp: arrow_def emit_def split: option.splits sum.splits)

lemma forward_first:
  assumes "andThen (GetImpl W) (\<lambda>q. arrow q name m) st = Inr (r, st')" and "impl st = None"
  shows "impl st' = Some (next_ref st) \<and>
         trace st' = trace st @ construction (next_ref st) (g_simTypeImpl st) @
                       [Invoked (next_ref st) name]"
proof -
  from assms(1) obtain x st1 where 1: "GetImpl W st = Inr (x, st1)"
    and 2: "arrow x name m st1 = Inr (r, st')"
    by (auto simp: andThen_Inr)
  from GetImpl_first [OF 1 assms(2)] arrow_returned [OF 2] show ?thesis by auto
qed

lemma forward_existing:
  assumes "andThen (GetImpl W) (\<lambda>q. arrow q name m) st = Inr (r, st')" and "impl st = Some p"
  shows "impl st' = Some p \<and> trace st' = trace st @ [Invoked p name]"
proof -
  from assms(1) obtain x st1 where 1: "GetImpl W st = Inr (x, st1)"
    and 2: "arrow x name m st1 = Inr (r, st')"
    by (auto simp: andThen_Inr)
  from 1 assms(2) have "x = Some p \<and> st1 = st" by (simp add: GetImpl_existing)
  with arrow_returned [OF 2] assms(2) show ?thesis by auto
qed

lemma metrics_returned:
  assumes "(if ENABLE_DES_METRICS W then andThen (Simulator_Now W) k else returns ()) st
             = Inr (x, s2)"
    and "\<forall>now s y s'. k now s = Inr (y, s') \<longrightarrow>
           impl s' = impl s \<and> (\<exists>a. trace s' = trace s @ [a] \<and> (\<forall>p. forwards_to p a))"
  shows "(st = s2 \<or>
          (\<exists>a. (\<forall>p. forwards_to p a) \<and>
             (case impl st of
                Some p \<Rightarrow> impl s2 = Some p \<and> trace s2 = trace st @ [Invoked p M_Now, a]
              | None \<Rightarrow> impl s2 = Some (next_ref st) \<and>
                  trace s2 = trace st @ construction (next_ref st) (g_simTypeImpl st) @
                                [Invoked (next_ref st) M_Now, a])))"
proof (cases "ENABLE_DES_METRICS W")
  case False
  with assms(1) show ?thesis by (simp add: returns_def)
next
  case True
  with assms(1) obtain now s1 where 1: "Simulator_Now W st = Inr (now, s1)"
    and 2: "k now s1 = Inr (x, s2)"
    by (auto simp: andThen_Inr)
  from assms(2) 2 obtain a where b: "impl s2 = impl s1" "trace s2 = trace s1 @ [a]"
    "\<forall>p. forwards_to p a" by blast
  show ?thesis
  proof (cases "impl st")
    case None
    from forward_first [OF 1 [unfolded Simulator_Now_def] None] b None show ?thesis by auto
  next
    case (Some p)
    from forward_existing [OF 1 [unfolded Simulator_Now_def] Some] b Some show ?thesis by auto
  qed
qed

lemma Trace_returned:
  "\<forall>now s y s'. DesMetrics_Trace now d s = Inr (y, s') \<longrightarrow>
     impl s' = impl s \<and> (\<exists>a. trace s' = trace s @ [a] \<and> (\<forall>p. forwards_to p a))"
  by (auto simp: DesMetrics_Trace_def emit_def)

lemma TraceWithContext_returned:
  "\<forall>now s y s'. DesMetrics_TraceWithContext c now d s = Inr (y, s') \<longrightarrow>
     impl s' = impl s \<and> (\<exists>a. trace s' = trace s @ [a] \<and> (\<forall>p. forwards_to p a))"
  by (auto simp: DesMetrics_TraceWithContext_def emit_def)

lemma call_spec_NoneI:
  assumes "impl st = None" and "impl st' = Some (next_ref st)"
    and "trace st' = trace st @ pre @ construction (next_ref st) (g_simTypeImpl st) @ post"
    and "list_all (forwards_to (next_ref st)) pre"
    and "list_all (forwards_to (next_ref st)) post"
  shows "call_spec st st'"
  using assms unfolding call_spec_def by auto

lemma call_spec_SomeI:
  assumes "impl st = Some p" and "impl st' = Some p"
    and "trace st' = trace st @ post" and "list_all (forwards_to p) post"
  shows "call_spec st st'"
  using assms unfolding call_spec_def by auto

lemma forward_spec:
  assumes "andThen (GetImpl W) (\<lambda>q. arrow q name m) st = Inr (r, st')"
  shows "call_spec st st'"
proof (cases "impl st")
  case None
  from forward_first [OF assms None] show ?thesis
    by (intro call_spec_NoneI [where pre = "[]" and post = "[Invoked (next_ref st) name]"])
       (simp_all add: None)
next
  case (Some p)
  from forward_existing [OF assms Some] show ?thesis
    by (intro call_spec_SomeI [where p = p and post = "[Invoked p name]"]) (simp_all add: Some)
qed

lemma traced_spec:
  assumes "andThen (if ENABLE_DES_METRICS W then andThen (Simulator_Now W) k else returns ())
             (\<lambda>_. andThen (GetImpl W) (\<lambda>q. arrow q name m)) st = Inr (r, st')"
    and "\<forall>now s y s'. k now s = Inr (y, s') \<longrightarrow>
           impl s' = impl s \<and> (\<exists>a. trace s' = trace s @ [a] \<and> (\<forall>p. forwards_to p a))"
  shows "call_spec st st'"
proof -
  from assms(1) obtain x s2 where
    1: "(if ENABLE_DES_METRICS W then andThen (Simulator_Now W) k else returns ()) st
          = Inr (x, s2)"
    and 2: "andThen (GetImpl W) (\<lambda>q. arrow q name m) s2 = Inr (r, st')"
    by (auto simp: andThen_Inr)
  from metrics_returned [OF 1 assms(2)] consider (same) "st = s2"
    | (traced) a where "\<forall>p. forwards_to p a"
        "case impl st of
           Some p \<Rightarrow> impl s2 = Some p \<and> trace s2 = trace st @ [Invoked p M_Now, a]
         | None \<Rightarrow> impl s2 = Some (next_ref st) \<and>
             trace s2 = trace st @ construction (next_ref st) (g_simTypeImpl st) @
                          [Invoked (next_ref st) M_Now, a]"
    by blast
  then show ?thesis
  proof cases
    case same
    with forward_spec [OF 2] show ?thesis by simp
  next
    case traced
    show ?thesis
    proof (cases "impl st")
      case None
      with traced have i: "impl s2 = Some (next_ref st)"
        and t: "trace s2 = trace st @ construction (next_ref st) (g_simTypeImpl st) @
                             [Invoked (next_ref st) M_Now, a]" by simp_all
      from forward_existing [OF 2 i] t traced(1) show ?thesis
        by (intro call_spec_NoneI [where pre = "[]" and
              post = "[Invoked (next_ref st) M_Now, a, Invoked (next_ref st) name]"])
           (simp_all add: None)
    next
      case (Some p)
      with traced have i: "impl s2 = Some p"
        and t: "trace s2 = trace st @ [Invoked p M_Now, a]" by simp_all
      from forward_existing [OF 2 i] t traced(1) show ?thesis
        by (intro call_spec_SomeI [where p = p and
              post = "[Invoked p M_Now, a, Invoked p name]"])
           (simp_all add: Some)
    qed
  qed
qed


lemma Ptr_from_raw_returned:
  assumes "Ptr_from_raw (Some p) s = Inr (r, s')"
  shows "r = Some p \<and> impl s' = impl s \<and> trace s' = trace s @ [Refd p]"
  using assms
  by (auto simp: Ptr_from_raw_def Ref_def andThen_def returns_def emit_def
           split: option.splits)

lemma call_returned:
  assumes "exec W c st = Inr st'" and "needs_engine c"
  shows "call_spec st st'"
proof (cases c)
  case (Call_Schedule d ev)
  with assms(1) obtain r where "Simulator_DoSchedule W d ev st = Inr (r, st')"
    by (auto simp: Simulator_Schedule_def state_after_Inr)
  then show ?thesis
    unfolding Simulator_DoSchedule_def by (rule traced_spec) (rule Trace_returned)
next
  case (Call_ScheduleNow ev)
  with assms(1) obtain r where "Simulator_DoScheduleNow W ev st = Inr (r, st')"
    by (auto simp: Simulator_ScheduleNow_def state_after_Inr)
  then show ?thesis
    unfolding Simulator_DoScheduleNow_def by (rule traced_spec) (rule Trace_returned)
next
  case (Call_ScheduleWithContext ctx d ev)
  with assms(1) obtain r where "Simulator_ScheduleWithContext W ctx d ev st = Inr (r, st')"
    by (auto simp: state_after_Inr)
  then show ?thesis
    unfolding Simulator_ScheduleWithContext_def
    by (rule traced_spec) (rule TraceWithContext_returned)
next
  case Call_Run
  with assms(1) obtain r where 1:
    "andThen (GetImpl W) (\<lambda>p. arrow p M_Run (impl_Run (vtable W))) (emit MarkedTimesCleared st)
       = Inr (r, st')"
    by (auto simp: Simulator_Run_def state_after_Inr andThen_ClearMarkedTimes)
  show ?thesis
  proof (cases "impl st")
    case None
    then have "impl (emit MarkedTimesCleared st) = None" by (simp add: emit_def)
    from forward_first [OF 1 this] show ?thesis
      by (intro call_spec_NoneI [where pre = "[MarkedTimesCleared]" and
            post = "[Invoked (next_ref st) M_Run]"])
         (simp_all add: None emit_def)
  next
    case (Some p)
    then have "impl (emit MarkedTimesCleared st) = Some p" by (simp add: emit_def)
    from forward_existing [OF 1 this] show ?thesis
      by (intro call_spec_SomeI [where p = p and
            post = "[MarkedTimesCleared, Invoked p M_Run]"])
         (simp_all add: Some emit_def)
  qed
next
  case Call_GetImplementation
  with assms(1) obtain r x s1 where 1: "GetImpl W st = Inr (x, s1)"
    and 2: "Ptr_from_raw x s1 = Inr (r, st')"
    by (auto simp: Simulator_GetImplementation_def state_after_Inr andThen_Inr)
  show ?thesis
  proof (cases "impl st")
    case None
    note g = GetImpl_first [OF 1 None]
    from g 2 have "Ptr_from_raw (Some (next_ref st)) s1 = Inr (r, st')" by simp
    from g Ptr_from_raw_returned [OF this] show ?thesis
      by (intro call_spec_NoneI [where pre = "[]" and post = "[Refd (next_ref st)]"])
         (simp_all add: None)
  next
    case (Some p)
    with 1 have g: "x = Some p" "s1 = st" by (simp_all add: GetImpl_existing)
    with 2 have "Ptr_from_raw (Some p) st = Inr (r, st')" by simp
    from Ptr_from_raw_returned [OF this] show ?thesis
      by (intro call_spec_SomeI [where p = p and post = "[Refd p]"]) (simp_all add: Some)
  qed
qed (use assms in \<open>auto simp: facade state_after_Inr intro: forward_spec\<close>)

subsection \<open>The allocator's invariant is kept\<close>

named_theorems keeps_intros

lemma keeps_andThen [keeps_intros]:
  assumes "keeps f" and "\<And>x. keeps (g x)"
  shows "keeps (andThen f g)"
  unfolding keeps_def
proof (intro allI impI)
  fix st r st'
  assume a: "allocated st" and "andThen f g st = Inr (r, st')"
  then obtain x s1 where 1: "f st = Inr (x, s1)" and 2: "g x s1 = Inr (r, st')"
    by (auto simp: andThen_Inr)
  from assms(1) a 1 have "allocated s1 \<and> next_ref st \<le> next_ref s1"
    unfolding keeps_def by blast
  moreover from this assms(2) [of x] 2 have "allocated st' \<and> next_ref s1 \<le> next_ref st'"
    unfolding keeps_def by blast
  ultimately show "allocated st' \<and> next_ref st \<le> next_ref st'" by simp
qed

lemma keeps_reading:
  assumes "\<And>v. keeps (h v)"
  shows "keeps (\<lambda>st. h (k st) st)"
  using assms unfolding keeps_def by blast

lemma keeps_if [keeps_intros]: "keeps f \<Longrightarrow> keeps g \<Longrightarrow> keeps (if b then f else g)"
  by simp

lemma keeps_fatal [keeps_intros]: "keeps (\<lambda>_. Inl err)"
  by (simp add: keeps_def)

lemma keeps_returns [keeps_intros]: "keeps (returns x)"
  by (simp add: keeps_def returns_def)

lemma keeps_PeekImpl [keeps_intros]: "keeps PeekImpl"
  by (simp add: keeps_def PeekImpl_def)

lemma keeps_Assign [keeps_intros]: "keeps (Assign ptr)"
  by (auto simp: keeps_def Assign_def emit_def allocated_def)

lemma keeps_LogSetTimePrinter [keeps_intros]: "keeps (LogSetTimePrinter f)"
  by (auto simp: keeps_def LogSetTimePrinter_def emit_def allocated_def)

lemma keeps_LogSetNodePrinter [keeps_intros]: "keeps (LogSetNodePrinter f)"
  by (auto simp: keeps_def LogSetNodePrinter_def emit_def allocated_def)

lemma keeps_ClearMarkedTimes [keeps_intros]: "keeps ClearMarkedTimes"
  by (auto simp: keeps_def ClearMarkedTimes_def emit_def allocated_def)

lemma keeps_Trace [keeps_intros]: "keeps (DesMetrics_Trace now d)"
  by (auto simp: keeps_def DesMetrics_Trace_def emit_def allocated_def)

lemma keeps_TraceWithContext [keeps_intros]: "keeps (DesMetrics_TraceWithContext c now d)"
  by (auto simp: keeps_def DesMetrics_TraceWithContext_def emit_def allocated_def)

lemma keeps_Create [keeps_intros]: "keeps (Create W tid)"
  by (auto simp: keeps_def Create_def emit_def allocated_def split: option.splits)

lemma keeps_Ref [keeps_intros]: "keeps (Ref ptr)"
  by (auto simp: keeps_def Ref_def emit_def allocated_def split: option.splits)

lemma keeps_Unref [keeps_intros]: "keeps (Unref ptr)"
  by (auto simp: keeps_def Unref_def emit_def allocated_def split: option.splits)

lemma keeps_arrow [keeps_intros]: "keeps (arrow ptr name m)"
  by (auto simp: keeps_def arrow_def emit_def allocated_def split: option.splits sum.splits)

lemma keeps_Create_reading [keeps_intros]: "keeps (\<lambda>st. Create W (k st) st)"
  by (rule keeps_reading) (rule keeps_Create)

lemma keeps_arrow_reading [keeps_intros]: "keeps (\<lambda>st. arrow ptr name (m (k st)) st)"
  by (rule keeps_reading) (rule keeps_arrow)

lemma keeps_GetPointer [keeps_intros]: "keeps (GetPointer ptr)"
  unfolding GetPointer_def by (intro keeps_intros)

lemma keeps_Ptr_from_raw [keeps_intros]: "keeps (Ptr_from_raw raw)"
  unfolding Ptr_from_raw_def by (intro keeps_intros)

lemma keeps_GetImpl [keeps_intros]: "keeps (GetImpl W)"
  unfolding GetImpl_def by (intro keeps_intros)

lemma keeps_Now [keeps_intros]: "keeps (Simulator_Now W)"
  unfolding Simulator_Now_def by (intro keeps_intros)

lemma keeps_state_after:
  assumes "state_after (f st) = Inr st'" and "keeps f" and "allocated st"
  shows "allocated st' \<and> next_ref st \<le> next_ref st'"
  using assms unfolding keeps_def state_after_Inr by blast

lemma keeps_facade:
  "keeps (Simulator_Destroy W)" "keeps (Simulator_SetScheduler W f)"
  "keeps (Simulator_IsFinished W)" "keeps (Simulator_Run W)" "keeps (Simulator_Stop W)"
  "keeps (Simulator_Stop_delay W d)" "keeps (Simulator_GetDelayLeft W eid)"
  "keeps (Simulator_Schedule W d ev)" "keeps (Simulator_ScheduleNow W ev)"
  "keeps (Simulator_ScheduleWithContext W c d ev)" "keeps (Simulator_ScheduleDestroy W ev)"
  "keeps (Simulator_Remove W eid)" "keeps (Simulator_Cancel W eid)"
  "keeps (Simulator_IsExpired W eid)" "keeps (Simulator_GetMaximumSimulationTime W)"
  "keeps (Simulator_GetContext W)" "keeps (Simulator_GetEventCount W)"
  "keeps (Simulator_GetSystemId W)" "keeps (Simulator_SetImplementation W ptr)"
  "keeps (Simulator_GetImplementation W)"
  unfolding Simulator_Destroy_def Simulator_SetScheduler_def Simulator_IsFinished_def
    Simulator_Run_def Simulator_Stop_def Simulator_Stop_delay_def Simulator_GetDelayLeft_def
    Simulator_DoSchedule_def Simulator_DoScheduleNow_def Simulator_DoScheduleDestroy_def
    Simulator_Schedule_def Simulator_ScheduleNow_def Simulator_ScheduleWithContext_def
    Simulator_ScheduleDestroy_def Simulator_Remove_def Simulator_Cancel_def
    Simulator_IsExpired_def Simulator_GetMaximumSimulationTime_def Simulator_GetContext_def
    Simulator_GetEventCount_def Simulator_GetSystemId_def Simulator_SetImplementation_def
    Simulator_GetImplementation_def
  by (intro keeps_intros)+

lemma exec_allocated:
  assumes "allocated st" and "exec W c st = Inr st'"
  shows "allocated st' \<and> next_ref st \<le> next_ref st'"
  using assms(2)
  by (cases c)
     (simp_all, (erule keeps_state_after, rule keeps_facade keeps_Now, rule assms(1))+)

subsection \<open>The states of the reference engine's process are reached\<close>

lemmas reference =
  ns3_def Default_registry_def Default_vtable_def DefaultSimulatorImpl_new_def
  Default_SetScheduler_def Default_Destroy_def Default_IsFinished_def

lemmas scenarios =
  program_start_def engine_running_def destroyed_def engine_provided_def
  second_engine_provided_def destroyed_second_provided_def

lemma reach_engine_running: "GetImpl (ns3 m) program_start = Inr (Some 0, engine_running)"
  by (simp add: GetImpl_def steps scenarios reference)

lemma reach_destroyed: "Simulator_Destroy (ns3 m) engine_running = Inr ((), destroyed)"
  by (simp add: Simulator_Destroy_def steps scenarios reference)

lemma reach_engine_provided:
  "Create (ns3 m) ''ns3::DefaultSimulatorImpl'' program_start = Inr (Some 0, engine_provided)"
  by (simp add: steps scenarios reference)

lemma reach_second_engine_provided:
  "Create (ns3 m) ''ns3::DefaultSimulatorImpl'' engine_running =
     Inr (Some 1, second_engine_provided)"
  by (simp add: steps scenarios reference numeral_2_eq_2)

lemma reach_destroyed_second_provided:
  "Simulator_Destroy (ns3 m) second_engine_provided = Inr ((), destroyed_second_provided)"
  by (simp add: Simulator_Destroy_def steps scenarios reference)

subsection \<open>Calls made before any engine exists\<close>

text \<open>
  C3. Whatever the event handle, \<^verbatim>\<open>Simulator::IsExpired\<close> called while the singleton
  pointer is null returns true and leaves the whole process state as it was: no engine
  is constructed, nothing is traced.
\<close>

theorem IsExpired_without_engine:
  "impl st = None \<Longrightarrow> Simulator_IsExpired W eid st = Inr (True, st)"
  by (simp add: Simulator_IsExpired_def steps)

theorem IsExpired_without_engine_witness:
  "impl (program_start :: DefaultSimulatorImpl process) = None \<and>
   Simulator_IsExpired (ns3 False) \<lparr>id_time = 5, id_context = 0, id_uid = 3\<rparr> program_start =
     Inr (True, program_start)"
  using IsExpired_without_engine
          [of program_start "ns3 False" "\<lparr>id_time = 5, id_context = 0, id_uid = 3\<rparr>"]
  by (simp add: program_start_def)

text \<open>
  C4. Whatever the event handle, \<^verbatim>\<open>Simulator::Cancel\<close> and \<^verbatim>\<open>Simulator::Remove\<close> called
  while the singleton pointer is null return normally and leave the whole process state
  as it was: no engine is constructed, no state changes, no error is raised.
\<close>

theorem Cancel_Remove_without_engine:
  "impl st = None \<Longrightarrow>
     Simulator_Cancel W eid st = Inr ((), st) \<and> Simulator_Remove W eid st = Inr ((), st)"
  by (simp add: Simulator_Cancel_def Simulator_Remove_def steps)

theorem Cancel_Remove_without_engine_witness:
  "impl (program_start :: DefaultSimulatorImpl process) = None \<and>
   Simulator_Cancel (ns3 True) \<lparr>id_time = 2, id_context = 1, id_uid = 0\<rparr> program_start =
     Inr ((), program_start) \<and>
   Simulator_Remove (ns3 True) \<lparr>id_time = 2, id_context = 1, id_uid = 0\<rparr> program_start =
     Inr ((), program_start)"
  using Cancel_Remove_without_engine
          [of program_start "ns3 True" "\<lparr>id_time = 2, id_context = 1, id_uid = 0\<rparr>"]
  by (simp add: program_start_def)

text \<open>
  C9. \<^verbatim>\<open>Simulator::Destroy\<close> called while the singleton pointer is null returns at once
  and leaves the whole process state as it was: no engine is constructed, the print
  hooks are not touched, no error is raised.
\<close>

theorem Destroy_without_engine:
  "impl st = None \<Longrightarrow> Simulator_Destroy W st = Inr ((), st)"
  by (simp add: Simulator_Destroy_def steps)

theorem Destroy_without_engine_witness:
  "impl (program_start :: DefaultSimulatorImpl process) = None \<and>
   Simulator_Destroy (ns3 False) program_start = Inr ((), program_start)"
  using Destroy_without_engine [of program_start "ns3 False"]
  by (simp add: program_start_def)

subsection \<open>Installing an engine\<close>

text \<open>
  C1. A call of \<^verbatim>\<open>Simulator::SetImplementation\<close> made while the singleton pointer is
  not null ends in the fatal error, whatever engine is passed. Made while the pointer is
  null, with a pointer to a live engine whose \<^verbatim>\<open>SetScheduler\<close> returns, it installs that
  very engine as the singleton: the pointer is the caller's, the facade holds one more
  reference to the object, the engine has been given the scheduler factory of the global
  value, and the two print hooks are set.
\<close>

theorem SetImplementation_once:
  "(impl st \<noteq> None \<longrightarrow>
      Simulator_SetImplementation W ptr st = Inl (Fatal msg_SetImplementation)) \<and>
   (impl st = None \<longrightarrow> heap st p = Some ob \<longrightarrow>
      impl_SetScheduler (vtable W) (g_schedTypeImpl st) (engine ob) = Inr ((), e') \<longrightarrow>
      Simulator_SetImplementation W (Some p) st =
        Inr ((), st\<lparr>impl := Some p,
                    heap := (heap st)(p \<mapsto> ob\<lparr>refcount := Suc (refcount ob), engine := e'\<rparr>),
                    log_time_printer := Some DefaultTimePrinter,
                    log_node_printer := Some DefaultNodePrinter,
                    trace := trace st @
                      [Refd p, Assigned (Some p), Invoked p M_SetScheduler,
                       TimePrinterSet (Some DefaultTimePrinter),
                       NodePrinterSet (Some DefaultNodePrinter)]\<rparr>))"
  by (simp add: Simulator_SetImplementation_def steps)

theorem SetImplementation_once_witness:
  "impl engine_running \<noteq> None \<and>
   Simulator_SetImplementation (ns3 False) (Some 0) engine_running =
     Inl (Fatal msg_SetImplementation) \<and>
   impl engine_provided = None \<and>
   heap engine_provided 0 = Some \<lparr>refcount = 1, engine = DefaultSimulatorImpl_new\<rparr> \<and>
   impl_SetScheduler (vtable (ns3 False)) (g_schedTypeImpl engine_provided)
       DefaultSimulatorImpl_new =
     Inr ((), DefaultSimulatorImpl_new\<lparr>scheduler_type := Some ''ns3::MapScheduler''\<rparr>) \<and>
   Simulator_SetImplementation (ns3 False) (Some 0) engine_provided =
     Inr ((),
       \<lparr>impl = Some 0,
        heap = [0 \<mapsto> \<lparr>refcount = 2,
                      engine = DefaultSimulatorImpl_new
                                 \<lparr>scheduler_type := Some ''ns3::MapScheduler''\<rparr>\<rparr>],
        next_ref = 1,
        g_simTypeImpl = ''ns3::DefaultSimulatorImpl'',
        g_schedTypeImpl = ''ns3::MapScheduler'',
        log_time_printer = Some DefaultTimePrinter,
        log_node_printer = Some DefaultNodePrinter,
        trace = [Constructed 0 ''ns3::DefaultSimulatorImpl'', Refd 0, Assigned (Some 0),
                 Invoked 0 M_SetScheduler, TimePrinterSet (Some DefaultTimePrinter),
                 NodePrinterSet (Some DefaultNodePrinter)]\<rparr>)"
  using SetImplementation_once [of engine_running "ns3 False" "Some 0"]
        SetImplementation_once
          [of engine_provided "ns3 False" _ 0
              "\<lparr>refcount = 1, engine = DefaultSimulatorImpl_new\<rparr>"
              "DefaultSimulatorImpl_new\<lparr>scheduler_type := Some ''ns3::MapScheduler''\<rparr>"]
  by (simp add: scenarios reference numeral_2_eq_2)

text \<open>
  C10. Once \<^verbatim>\<open>Simulator::Destroy\<close> has returned from destroying an engine, a call of
  \<^verbatim>\<open>Simulator::SetImplementation\<close> with a pointer to a live engine whose \<^verbatim>\<open>SetScheduler\<close>
  returns does not meet the fatal error: it installs that engine as the singleton, gives
  it the scheduler factory of the global value and sets the print hooks.
\<close>

theorem SetImplementation_after_Destroy:
  assumes "impl st = Some q"
    and "Simulator_Destroy W st = Inr ((), st1)"
    and "heap st1 p = Some ob"
    and "impl_SetScheduler (vtable W) (g_schedTypeImpl st1) (engine ob) = Inr ((), e')"
  shows "Simulator_SetImplementation W (Some p) st1 =
        Inr ((), st1\<lparr>impl := Some p,
                     heap := (heap st1)(p \<mapsto> ob\<lparr>refcount := Suc (refcount ob),
                                                  engine := e'\<rparr>),
                     log_time_printer := Some DefaultTimePrinter,
                     log_node_printer := Some DefaultNodePrinter,
                     trace := trace st1 @
                       [Refd p, Assigned (Some p), Invoked p M_SetScheduler,
                        TimePrinterSet (Some DefaultTimePrinter),
                        NodePrinterSet (Some DefaultNodePrinter)]\<rparr>)"
proof -
  from assms(2) have "impl st1 = None"
    by (simp add: Destroy_returned)
  with assms(3,4) show ?thesis
    by (simp add: Simulator_SetImplementation_def steps)
qed

theorem SetImplementation_after_Destroy_witness:
  "impl second_engine_provided = Some 0 \<and>
   Simulator_Destroy (ns3 False) second_engine_provided = Inr ((), destroyed_second_provided) \<and>
   heap destroyed_second_provided 1 =
     Some \<lparr>refcount = 1, engine = DefaultSimulatorImpl_new\<rparr> \<and>
   impl_SetScheduler (vtable (ns3 False)) (g_schedTypeImpl destroyed_second_provided)
       DefaultSimulatorImpl_new =
     Inr ((), DefaultSimulatorImpl_new\<lparr>scheduler_type := Some ''ns3::MapScheduler''\<rparr>) \<and>
   Simulator_SetImplementation (ns3 False) (Some 1) destroyed_second_provided =
     Inr ((), destroyed_second_provided
       \<lparr>impl := Some 1,
        heap := [1 \<mapsto> \<lparr>refcount = 2,
                       engine = DefaultSimulatorImpl_new
                                  \<lparr>scheduler_type := Some ''ns3::MapScheduler''\<rparr>\<rparr>],
        log_time_printer := Some DefaultTimePrinter,
        log_node_printer := Some DefaultNodePrinter,
        trace := trace destroyed_second_provided @
          [Refd 1, Assigned (Some 1), Invoked 1 M_SetScheduler,
           TimePrinterSet (Some DefaultTimePrinter),
           NodePrinterSet (Some DefaultNodePrinter)]\<rparr>)"
  using SetImplementation_after_Destroy
          [of second_engine_provided 0 "ns3 False" destroyed_second_provided 1
              "\<lparr>refcount = 1, engine = DefaultSimulatorImpl_new\<rparr>"
              "DefaultSimulatorImpl_new\<lparr>scheduler_type := Some ''ns3::MapScheduler''\<rparr>"]
        reach_destroyed_second_provided [of False]
  by (simp add: scenarios reference numeral_2_eq_2)

subsection \<open>One engine at a time\<close>

lemmas reference_engine =
  Default_Schedule_def Default_ScheduleNow_def Default_ScheduleWithContext_def
  Default_ScheduleDestroy_def Default_Cancel_def Default_Remove_def Default_IsExpired_def
  Default_GetDelayLeft_def Default_Run_def Default_Stop_def Default_Stop_delay_def
  Default_Now_def Default_GetMaximumSimulationTime_def Default_GetSystemId_def
  Default_GetContext_def Default_GetEventCount_def insert_at_def handle_of_def execute_def
  pending_def mark_cancelled_def

lemma new_actions_append: "trace st' = trace st @ tr \<Longrightarrow> new_actions st st' = tr"
  by (simp add: new_actions_def)

lemma forwards_to_concerns: "forwards_to p a \<Longrightarrow> concerns p a \<and> \<not> is_Constructed a"
  by (cases a) simp_all

lemma forwards_to_all:
  "list_all (forwards_to p) xs \<Longrightarrow> list_all (concerns p) xs \<and> filter is_Constructed xs = []"
  by (induction xs) (auto dest: forwards_to_concerns)

lemma call_first:
  assumes "impl st = None" and "needs_engine c" and "exec W c st = Inr st'"
  shows "impl st' = Some (next_ref st) \<and> trace st' = trace st @ new_actions st st' \<and>
         filter is_Constructed (new_actions st st') =
           [Constructed (next_ref st) (g_simTypeImpl st)] \<and>
         list_all (concerns (next_ref st)) (new_actions st st')"
proof -
  from call_returned [OF assms(3,2)] assms(1) obtain pre post
    where i: "impl st' = Some (next_ref st)"
      and t: "trace st' = trace st @ pre @ construction (next_ref st) (g_simTypeImpl st) @ post"
      and f: "list_all (forwards_to (next_ref st)) pre" "list_all (forwards_to (next_ref st)) post"
    by (auto simp: call_spec_def)
  from t have "new_actions st st' = pre @ construction (next_ref st) (g_simTypeImpl st) @ post"
    by (rule new_actions_append)
  with i t forwards_to_all [OF f(1)] forwards_to_all [OF f(2)] show ?thesis
    by (simp add: construction_def)
qed



lemma run_allocated:
  assumes "allocated st" and "run W cs st = Inr st'"
  shows "allocated st' \<and> next_ref st \<le> next_ref st'"
  using assms
proof (induction cs arbitrary: st)
  case Nil
  then show ?case by simp
next
  case (Cons c cs)
  from Cons.prems obtain st1 where 1: "exec W c st = Inr st1" and 2: "run W cs st1 = Inr st'"
    by (auto split: sum.splits)
  from exec_allocated [OF Cons.prems(1) 1] Cons.IH [OF _ 2] show ?case by fastforce
qed

lemma allocated_program_start: "allocated program_start"
  by (simp add: allocated_def program_start_def)








subsection \<open>The order of construction and teardown\<close>

text \<open>
  C5. Every execution of the lazy construction in \<^verbatim>\<open>GetImpl\<close> that returns has taken
  these steps in this order: the engine is constructed, a reference to it is taken and
  stored in the singleton pointer, the engine is given its scheduler, and only then are
  the time printer and the node printer installed. Every execution of
  \<^verbatim>\<open>Simulator::Destroy\<close> on an engine that returns has taken these steps in this order:
  the time printer and the node printer are uninstalled, then the engine's \<^verbatim>\<open>Destroy\<close> is
  invoked, the engine is released, and the singleton pointer is cleared.
\<close>

theorem hooks_last_in_first_out:
  "(impl st = None \<longrightarrow> GetImpl W st = Inr (r, st') \<longrightarrow>
      r = Some (next_ref st) \<and>
      new_actions st st' =
        [Constructed (next_ref st) (g_simTypeImpl st), Refd (next_ref st),
         Assigned (Some (next_ref st)), Unrefd (next_ref st),
         Invoked (next_ref st) M_SetScheduler,
         TimePrinterSet (Some DefaultTimePrinter),
         NodePrinterSet (Some DefaultNodePrinter)]) \<and>
   (impl st = Some p \<longrightarrow> Simulator_Destroy W st = Inr ((), st'') \<longrightarrow>
      new_actions st st'' =
        [TimePrinterSet None, NodePrinterSet None, Invoked p M_Destroy, Unrefd p,
         Assigned None])"
proof (intro conjI impI)
  assume "impl st = None" and "GetImpl W st = Inr (r, st')"
  from GetImpl_first [OF this(2,1)]
  show "r = Some (next_ref st)"
    and "new_actions st st' =
        [Constructed (next_ref st) (g_simTypeImpl st), Refd (next_ref st),
         Assigned (Some (next_ref st)), Unrefd (next_ref st),
         Invoked (next_ref st) M_SetScheduler,
         TimePrinterSet (Some DefaultTimePrinter),
         NodePrinterSet (Some DefaultNodePrinter)]"
    by (simp_all add: new_actions_def construction_def)
next
  assume "impl st = Some p" and "Simulator_Destroy W st = Inr ((), st'')"
  then show "new_actions st st'' =
        [TimePrinterSet None, NodePrinterSet None, Invoked p M_Destroy, Unrefd p,
         Assigned None]"
    by (auto simp: Simulator_Destroy_def steps new_actions_def
             split: option.splits sum.splits)
qed

theorem hooks_last_in_first_out_witness:
  "impl (program_start :: DefaultSimulatorImpl process) = None \<and>
   GetImpl (ns3 False) program_start = Inr (Some 0, engine_running) \<and>
   new_actions program_start engine_running =
     [Constructed 0 ''ns3::DefaultSimulatorImpl'', Refd 0, Assigned (Some 0), Unrefd 0,
      Invoked 0 M_SetScheduler, TimePrinterSet (Some DefaultTimePrinter),
      NodePrinterSet (Some DefaultNodePrinter)] \<and>
   impl engine_running = Some 0 \<and>
   Simulator_Destroy (ns3 False) engine_running = Inr ((), destroyed) \<and>
   new_actions engine_running destroyed =
     [TimePrinterSet None, NodePrinterSet None, Invoked 0 M_Destroy, Unrefd 0, Assigned None]"
  using hooks_last_in_first_out
          [of program_start "ns3 False" "Some 0" engine_running 0 destroyed]
        hooks_last_in_first_out
          [of engine_running "ns3 False" "Some 0" engine_running 0 destroyed]
        reach_engine_running [of False] reach_destroyed [of False]
  by (simp add: program_start_def engine_running_def)

subsection \<open>Restart\<close>

text \<open>
  C6. When \<^verbatim>\<open>Simulator::Destroy\<close> has returned from destroying the engine \<open>p\<close>, the
  singleton pointer is null again, and any later call that needs the engine and returns
  has constructed exactly one engine. That engine is a new object: its identity is not
  \<open>p\<close> and was not in use before the teardown, and its state is what the factory
  builds, given its scheduler, whatever the state of the destroyed engine was.
\<close>

theorem restart_after_Destroy:
  assumes "allocated st" and "impl st = Some p" and "Simulator_Destroy W st = Inr ((), st1)"
  shows "impl st1 = None \<and> next_ref st1 \<noteq> p \<and> heap st (next_ref st1) = None \<and>
         (\<forall>c st2. needs_engine c \<longrightarrow> exec W c st1 = Inr st2 \<longrightarrow>
            impl st2 = Some (next_ref st1) \<and>
            filter is_Constructed (new_actions st1 st2) =
              [Constructed (next_ref st1) (g_simTypeImpl st1)]) \<and>
         (\<forall>e0 e1. registry W (g_simTypeImpl st1) = Some e0 \<longrightarrow>
            impl_SetScheduler (vtable W) (g_schedTypeImpl st1) e0 = Inr ((), e1) \<longrightarrow>
            GetImpl W st1 =
              Inr (Some (next_ref st1),
                   st1\<lparr>impl := Some (next_ref st1),
                       heap := (heap st1)(next_ref st1 \<mapsto> \<lparr>refcount = 1, engine = e1\<rparr>),
                       next_ref := Suc (next_ref st1),
                       log_time_printer := Some DefaultTimePrinter,
                       log_node_printer := Some DefaultNodePrinter,
                       trace := trace st1 @
                         [Constructed (next_ref st1) (g_simTypeImpl st1), Refd (next_ref st1),
                          Assigned (Some (next_ref st1)), Unrefd (next_ref st1),
                          Invoked (next_ref st1) M_SetScheduler,
                          TimePrinterSet (Some DefaultTimePrinter),
                          NodePrinterSet (Some DefaultNodePrinter)]\<rparr>))"
proof -
  note d = Destroy_returned [OF assms(3)]
  then have reset: "impl st1 = None" and same: "next_ref st1 = next_ref st" by simp_all
  from d assms(2) have live: "heap st p \<noteq> None" by simp
  from assms(1) have fresh: "heap st (next_ref st) = None"
    by (simp add: allocated_def)
  with live have "next_ref st \<noteq> p" by auto
  moreover have "\<forall>c st2. needs_engine c \<longrightarrow> exec W c st1 = Inr st2 \<longrightarrow>
            impl st2 = Some (next_ref st1) \<and>
            filter is_Constructed (new_actions st1 st2) =
              [Constructed (next_ref st1) (g_simTypeImpl st1)]"
    using call_first [OF reset] by blast
  ultimately show ?thesis
    using reset same fresh by (simp add: GetImpl_constructs)
qed

theorem restart_after_Destroy_witness:
  "allocated engine_running \<and> impl engine_running = Some 0 \<and>
   Simulator_Destroy (ns3 False) engine_running = Inr ((), destroyed) \<and>
   impl destroyed = None \<and> next_ref destroyed = 1 \<and> heap engine_running 1 = None \<and>
   needs_engine (Call_Now :: (nat, EventId) facade_call) \<and>
   exec (ns3 False) Call_Now destroyed =
     Inr (destroyed
       \<lparr>impl := Some 1,
        heap := [1 \<mapsto> \<lparr>refcount = 1,
                       engine = DefaultSimulatorImpl_new
                                  \<lparr>scheduler_type := Some ''ns3::MapScheduler''\<rparr>\<rparr>],
        next_ref := 2,
        log_time_printer := Some DefaultTimePrinter,
        log_node_printer := Some DefaultNodePrinter,
        trace := trace destroyed @
          [Constructed 1 ''ns3::DefaultSimulatorImpl'', Refd 1, Assigned (Some 1), Unrefd 1,
           Invoked 1 M_SetScheduler, TimePrinterSet (Some DefaultTimePrinter),
           NodePrinterSet (Some DefaultNodePrinter), Invoked 1 M_Now]\<rparr>) \<and>
   registry (ns3 False) (g_simTypeImpl destroyed) = Some DefaultSimulatorImpl_new \<and>
   impl_SetScheduler (vtable (ns3 False)) (g_schedTypeImpl destroyed) DefaultSimulatorImpl_new =
     Inr ((), DefaultSimulatorImpl_new\<lparr>scheduler_type := Some ''ns3::MapScheduler''\<rparr>) \<and>
   GetImpl (ns3 False) destroyed =
     Inr (Some 1, destroyed
       \<lparr>impl := Some 1,
        heap := [1 \<mapsto> \<lparr>refcount = 1,
                       engine = DefaultSimulatorImpl_new
                                  \<lparr>scheduler_type := Some ''ns3::MapScheduler''\<rparr>\<rparr>],
        next_ref := 2,
        log_time_printer := Some DefaultTimePrinter,
        log_node_printer := Some DefaultNodePrinter,
        trace := trace destroyed @
          [Constructed 1 ''ns3::DefaultSimulatorImpl'', Refd 1, Assigned (Some 1), Unrefd 1,
           Invoked 1 M_SetScheduler, TimePrinterSet (Some DefaultTimePrinter),
           NodePrinterSet (Some DefaultNodePrinter)]\<rparr>)"
proof -
  have a: "allocated engine_running"
    by (simp add: allocated_def engine_running_def)
  have i: "impl engine_running = Some 0"
    by (simp add: engine_running_def)
  note w = restart_after_Destroy [OF a i reach_destroyed [of False]]
  have e: "exec (ns3 False) Call_Now destroyed =
     Inr (destroyed
       \<lparr>impl := Some 1,
        heap := [1 \<mapsto> \<lparr>refcount = 1,
                       engine = DefaultSimulatorImpl_new
                                  \<lparr>scheduler_type := Some ''ns3::MapScheduler''\<rparr>\<rparr>],
        next_ref := 2,
        log_time_printer := Some DefaultTimePrinter,
        log_node_printer := Some DefaultNodePrinter,
        trace := trace destroyed @
          [Constructed 1 ''ns3::DefaultSimulatorImpl'', Refd 1, Assigned (Some 1), Unrefd 1,
           Invoked 1 M_SetScheduler, TimePrinterSet (Some DefaultTimePrinter),
           NodePrinterSet (Some DefaultNodePrinter), Invoked 1 M_Now]\<rparr>)"
    by (simp add: Simulator_Now_def GetImpl_def steps state_after_def scenarios reference
          reference_engine numeral_2_eq_2)
  have r: "registry (ns3 False) (g_simTypeImpl destroyed) = Some DefaultSimulatorImpl_new"
    by (simp add: destroyed_def ns3_def Default_registry_def)
  have s: "impl_SetScheduler (vtable (ns3 False)) (g_schedTypeImpl destroyed)
             DefaultSimulatorImpl_new =
     Inr ((), DefaultSimulatorImpl_new\<lparr>scheduler_type := Some ''ns3::MapScheduler''\<rparr>)"
    by (simp add: destroyed_def reference)
  from w [THEN conjunct2, THEN conjunct2, THEN conjunct2, THEN conjunct2, rule_format, OF r s]
  have g: "GetImpl (ns3 False) destroyed =
     Inr (Some 1, destroyed
       \<lparr>impl := Some 1,
        heap := [1 \<mapsto> \<lparr>refcount = 1,
                       engine = DefaultSimulatorImpl_new
                                  \<lparr>scheduler_type := Some ''ns3::MapScheduler''\<rparr>\<rparr>],
        next_ref := 2,
        log_time_printer := Some DefaultTimePrinter,
        log_node_printer := Some DefaultNodePrinter,
        trace := trace destroyed @
          [Constructed 1 ''ns3::DefaultSimulatorImpl'', Refd 1, Assigned (Some 1), Unrefd 1,
           Invoked 1 M_SetScheduler, TimePrinterSet (Some DefaultTimePrinter),
           NodePrinterSet (Some DefaultNodePrinter)]\<rparr>)"
    by (simp add: destroyed_def numeral_2_eq_2)
  from w have "impl destroyed = None" "heap engine_running (next_ref destroyed) = None"
    by simp_all
  moreover have "next_ref destroyed = 1" by (simp add: destroyed_def)
  ultimately show ?thesis
    using a i reach_destroyed [of False] e r s g by simp
qed

subsection \<open>Queries before any engine exists\<close>

text \<open>
  C2 as stated fails for \<^verbatim>\<open>Simulator::IsFinished\<close>: called at program
  start, with the null pointer, it constructs engine 0 and asks it.
\<close>

theorem IsFinished_forces_construction:
  "impl (program_start :: DefaultSimulatorImpl process) = None \<and>
   Simulator_IsFinished (ns3 False) program_start =
     Inr (True, engine_running\<lparr>trace := trace engine_running @ [Invoked 0 M_IsFinished]\<rparr>) \<and>
   impl (engine_running\<lparr>trace := trace engine_running @ [Invoked 0 M_IsFinished]\<rparr>) = Some 0 \<and>
   Simulator_IsFinished (ns3 False) program_start \<noteq> Inr (True, program_start)"
  by (simp add: Simulator_IsFinished_def GetImpl_def steps scenarios reference)

text \<open>
  C2, amended. \<^verbatim>\<open>Simulator::GetSystemId\<close> called while the singleton pointer is null
  returns 0 and leaves the whole process state as it was. \<^verbatim>\<open>Simulator::IsFinished\<close> has no
  such guard: whenever it returns from a call made with the null pointer, it has
  constructed the engine through \<^verbatim>\<open>GetImpl\<close> and invoked the engine's \<^verbatim>\<open>IsFinished\<close>, and
  the value it returns is the engine's.
\<close>

theorem GetSystemId_without_engine:
  assumes "impl st = None"
  shows "Simulator_GetSystemId W st = Inr (0, st) \<and>
         (\<forall>b st'. Simulator_IsFinished W st = Inr (b, st') \<longrightarrow>
            impl st' = Some (next_ref st) \<and>
            new_actions st st' =
              construction (next_ref st) (g_simTypeImpl st) @
                [Invoked (next_ref st) M_IsFinished]) \<and>
         (\<forall>e0 e1 b e2. registry W (g_simTypeImpl st) = Some e0 \<longrightarrow>
            impl_SetScheduler (vtable W) (g_schedTypeImpl st) e0 = Inr ((), e1) \<longrightarrow>
            impl_IsFinished (vtable W) e1 = Inr (b, e2) \<longrightarrow>
            Simulator_IsFinished W st =
              Inr (b, st\<lparr>impl := Some (next_ref st),
                         heap := (heap st)(next_ref st \<mapsto> \<lparr>refcount = 1, engine = e2\<rparr>),
                         next_ref := Suc (next_ref st),
                         log_time_printer := Some DefaultTimePrinter,
                         log_node_printer := Some DefaultNodePrinter,
                         trace := trace st @ construction (next_ref st) (g_simTypeImpl st) @
                                    [Invoked (next_ref st) M_IsFinished]\<rparr>))"
proof (intro conjI allI impI)
  from assms show "Simulator_GetSystemId W st = Inr (0, st)"
    by (simp add: Simulator_GetSystemId_def steps)
next
  fix b st'
  assume "Simulator_IsFinished W st = Inr (b, st')"
  from forward_first [OF this [unfolded Simulator_IsFinished_def] assms]
  show "impl st' = Some (next_ref st)"
    and "new_actions st st' =
           construction (next_ref st) (g_simTypeImpl st) @ [Invoked (next_ref st) M_IsFinished]"
    by (simp_all add: new_actions_def)
next
  fix e0 e1 b e2
  assume "registry W (g_simTypeImpl st) = Some e0"
    and "impl_SetScheduler (vtable W) (g_schedTypeImpl st) e0 = Inr ((), e1)"
    and "impl_IsFinished (vtable W) e1 = Inr (b, e2)"
  with assms show "Simulator_IsFinished W st =
              Inr (b, st\<lparr>impl := Some (next_ref st),
                         heap := (heap st)(next_ref st \<mapsto> \<lparr>refcount = 1, engine = e2\<rparr>),
                         next_ref := Suc (next_ref st),
                         log_time_printer := Some DefaultTimePrinter,
                         log_node_printer := Some DefaultNodePrinter,
                         trace := trace st @ construction (next_ref st) (g_simTypeImpl st) @
                                    [Invoked (next_ref st) M_IsFinished]\<rparr>)"
    by (simp add: Simulator_IsFinished_def GetImpl_def steps construction_def)
qed

theorem GetSystemId_without_engine_witness:
  "impl destroyed = None \<and>
   Simulator_GetSystemId (ns3 False) destroyed = Inr (0, destroyed) \<and>
   registry (ns3 False) (g_simTypeImpl destroyed) = Some DefaultSimulatorImpl_new \<and>
   impl_SetScheduler (vtable (ns3 False)) (g_schedTypeImpl destroyed) DefaultSimulatorImpl_new =
     Inr ((), DefaultSimulatorImpl_new\<lparr>scheduler_type := Some ''ns3::MapScheduler''\<rparr>) \<and>
   impl_IsFinished (vtable (ns3 False))
       (DefaultSimulatorImpl_new\<lparr>scheduler_type := Some ''ns3::MapScheduler''\<rparr>) =
     Inr (True, DefaultSimulatorImpl_new\<lparr>scheduler_type := Some ''ns3::MapScheduler''\<rparr>) \<and>
   Simulator_IsFinished (ns3 False) destroyed =
     Inr (True, destroyed
       \<lparr>impl := Some 1,
        heap := [1 \<mapsto> \<lparr>refcount = 1,
                       engine = DefaultSimulatorImpl_new
                                  \<lparr>scheduler_type := Some ''ns3::MapScheduler''\<rparr>\<rparr>],
        next_ref := 2,
        log_time_printer := Some DefaultTimePrinter,
        log_node_printer := Some DefaultNodePrinter,
        trace := trace destroyed @ construction 1 ''ns3::DefaultSimulatorImpl'' @
                   [Invoked 1 M_IsFinished]\<rparr>) \<and>
   new_actions destroyed
     (destroyed
       \<lparr>impl := Some 1,
        heap := [1 \<mapsto> \<lparr>refcount = 1,
                       engine = DefaultSimulatorImpl_new
                                  \<lparr>scheduler_type := Some ''ns3::MapScheduler''\<rparr>\<rparr>],
        next_ref := 2,
        log_time_printer := Some DefaultTimePrinter,
        log_node_printer := Some DefaultNodePrinter,
        trace := trace destroyed @ construction 1 ''ns3::DefaultSimulatorImpl'' @
                   [Invoked 1 M_IsFinished]\<rparr>) =
     construction 1 ''ns3::DefaultSimulatorImpl'' @ [Invoked 1 M_IsFinished]"
proof -
  have i: "impl destroyed = None" by (simp add: destroyed_def)
  note w = GetSystemId_without_engine [OF i, of "ns3 False"]
  have r: "registry (ns3 False) (g_simTypeImpl destroyed) = Some DefaultSimulatorImpl_new"
    by (simp add: destroyed_def ns3_def Default_registry_def)
  have s: "impl_SetScheduler (vtable (ns3 False)) (g_schedTypeImpl destroyed)
             DefaultSimulatorImpl_new =
     Inr ((), DefaultSimulatorImpl_new\<lparr>scheduler_type := Some ''ns3::MapScheduler''\<rparr>)"
    by (simp add: destroyed_def reference)
  have f: "impl_IsFinished (vtable (ns3 False))
       (DefaultSimulatorImpl_new\<lparr>scheduler_type := Some ''ns3::MapScheduler''\<rparr>) =
     Inr (True, DefaultSimulatorImpl_new\<lparr>scheduler_type := Some ''ns3::MapScheduler''\<rparr>)"
    by (simp add: reference)
  have nr: "next_ref destroyed = 1" "g_simTypeImpl destroyed = ''ns3::DefaultSimulatorImpl''"
    "heap destroyed = Map.empty"
    by (simp_all add: destroyed_def)
  note g = w [THEN conjunct2, THEN conjunct2, rule_format, OF r s f, unfolded nr]
  note n = w [THEN conjunct2, THEN conjunct1, rule_format, OF g, THEN conjunct2, unfolded nr]
  note z = w [THEN conjunct1]
  from i r s f z g n show ?thesis
    by (simp add: numeral_2_eq_2)
qed

subsection \<open>Scheduling now\<close>

lemma Default_ScheduleNow_zero: "Default_ScheduleNow ev e = Default_Schedule 0 ev e"
  by (simp add: Default_ScheduleNow_def Default_Schedule_def)

lemma up_to_name_andThen:
  "up_to_name (andThen f g st) =
     (case f st of Inl err \<Rightarrow> Inl err | Inr (x, st') \<Rightarrow> up_to_name (g x st'))"
  by (simp add: andThen_def up_to_name_def split: sum.splits)

lemma up_to_name_arrow:
  "up_to_name (arrow ptr M_ScheduleNow m st) = up_to_name (arrow ptr M_Schedule m st)"
  by (simp add: arrow_def emit_def up_to_name_def split: option.splits sum.splits)

lemma up_to_name_forward:
  "up_to_name (andThen (GetImpl W) (\<lambda>p. arrow p M_ScheduleNow m) st) =
   up_to_name (andThen (GetImpl W) (\<lambda>p. arrow p M_Schedule m) st)"
  by (simp add: up_to_name_andThen up_to_name_arrow split: sum.splits)

lemma up_to_name_andThen_cong:
  assumes "\<And>x s. up_to_name (g x s) = up_to_name (h x s)"
  shows "up_to_name (andThen f g st) = up_to_name (andThen f h st)"
  by (simp add: up_to_name_andThen assms split: sum.splits)

lemma ScheduleNow_forwarded:
  assumes "\<forall>e. impl_ScheduleNow (vtable W) ev e = impl_Schedule (vtable W) 0 ev e"
  shows "up_to_name (Simulator_ScheduleNow W ev st) = up_to_name (Simulator_Schedule W 0 ev st)"
proof -
  from assms have "impl_ScheduleNow (vtable W) ev = impl_Schedule (vtable W) 0 ev"
    by (simp add: fun_eq_iff)
  then show ?thesis
    unfolding Simulator_ScheduleNow_def Simulator_Schedule_def
      Simulator_DoScheduleNow_def Simulator_DoSchedule_def
    by (simp only:) (rule up_to_name_andThen_cong, rule up_to_name_forward)
qed

text \<open>
  C8. For every callback, \<^verbatim>\<open>Simulator::ScheduleNow\<close> and \<^verbatim>\<open>Simulator::Schedule\<close> with
  delay 0 end in the same way: the same error, or the same event handle and the same
  process state (the same engine state, hence the same scheduled time and context), up to
  the name of the engine method in the trace. The facade itself makes no difference
  between the two, so this holds for every engine whose \<^verbatim>\<open>ScheduleNow\<close> is its \<^verbatim>\<open>Schedule\<close>
  at delay 0, and the reference engine is one of them.
\<close>

theorem ScheduleNow_as_Schedule_zero:
  "((\<forall>e. impl_ScheduleNow (vtable W) ev e = impl_Schedule (vtable W) 0 ev e) \<longrightarrow>
      up_to_name (Simulator_ScheduleNow W ev st) = up_to_name (Simulator_Schedule W 0 ev st)) \<and>
   up_to_name (Simulator_ScheduleNow (ns3 metrics) n st0) =
     up_to_name (Simulator_Schedule (ns3 metrics) 0 n st0)"
proof (intro conjI impI)
  assume "\<forall>e. impl_ScheduleNow (vtable W) ev e = impl_Schedule (vtable W) 0 ev e"
  then show "up_to_name (Simulator_ScheduleNow W ev st) =
      up_to_name (Simulator_Schedule W 0 ev st)"
    by (rule ScheduleNow_forwarded)
next
  show "up_to_name (Simulator_ScheduleNow (ns3 metrics) n st0) =
     up_to_name (Simulator_Schedule (ns3 metrics) 0 n st0)"
    by (rule ScheduleNow_forwarded)
       (simp add: ns3_def Default_vtable_def Default_ScheduleNow_zero)
qed


theorem ScheduleNow_as_Schedule_zero_witness:
  "(\<forall>e. impl_ScheduleNow (vtable (ns3 True)) 7 e = impl_Schedule (vtable (ns3 True)) 0 7 e) \<and>
   up_to_name (Simulator_ScheduleNow (ns3 True) 7 engine_running) =
     up_to_name (Simulator_Schedule (ns3 True) 0 7 engine_running) \<and>
   result_of (Simulator_ScheduleNow (ns3 True) 7 engine_running) =
     Some \<lparr>id_time = 0, id_context = 0, id_uid = 0\<rparr> \<and>
   result_of (Simulator_Schedule (ns3 True) 0 7 engine_running) =
     Some \<lparr>id_time = 0, id_context = 0, id_uid = 0\<rparr> \<and>
   map_option trace (state_of (Simulator_ScheduleNow (ns3 True) 7 engine_running)) =
     Some (trace engine_running @ [Invoked 0 M_Now, Traced 0 0, Invoked 0 M_ScheduleNow]) \<and>
   map_option trace (state_of (Simulator_Schedule (ns3 True) 0 7 engine_running)) =
     Some (trace engine_running @ [Invoked 0 M_Now, Traced 0 0, Invoked 0 M_Schedule])"
proof -
  have h: "\<forall>e. impl_ScheduleNow (vtable (ns3 True)) 7 e = impl_Schedule (vtable (ns3 True)) 0 7 e"
    by (simp add: ns3_def Default_vtable_def Default_ScheduleNow_zero)
  note w = ScheduleNow_as_Schedule_zero
             [of "ns3 True" 7 engine_running, THEN conjunct1, THEN mp, OF h]
  have "result_of (Simulator_ScheduleNow (ns3 True) 7 engine_running) =
     Some \<lparr>id_time = 0, id_context = 0, id_uid = 0\<rparr>"
   "result_of (Simulator_Schedule (ns3 True) 0 7 engine_running) =
     Some \<lparr>id_time = 0, id_context = 0, id_uid = 0\<rparr>"
   "map_option trace (state_of (Simulator_ScheduleNow (ns3 True) 7 engine_running)) =
     Some (trace engine_running @ [Invoked 0 M_Now, Traced 0 0, Invoked 0 M_ScheduleNow])"
   "map_option trace (state_of (Simulator_Schedule (ns3 True) 0 7 engine_running)) =
     Some (trace engine_running @ [Invoked 0 M_Now, Traced 0 0, Invoked 0 M_Schedule])"
    by (simp_all add: facade GetImpl_def steps scenarios reference reference_engine
          result_of_def state_of_def)
  with h w show ?thesis by simp
qed

end
